theory Spec2Isabelle
  imports Main "HOL-Library.Sublist" "HOL-Library.Multiset"
begin

section \<open>Data model\<close>

text \<open>
  The Stage resource as \<^verbatim>\<open>internal/api\<close> reads it: \<^verbatim>\<open>Namespace\<close> and \<^verbatim>\<open>Name\<close> of the
  object, a \<^verbatim>\<open>Spec\<close> pointer, inside it a \<^verbatim>\<open>Subscriptions\<close> pointer, inside that the
  slice \<^verbatim>\<open>UpstreamStages\<close> of \<^verbatim>\<open>StageSubscription\<close> values, each with a \<^verbatim>\<open>Name\<close>.
  A Go pointer that may be nil is an \<open>option\<close>; a nil slice is the empty list.
\<close>

record stageSubscription =
  sub_Name :: string

record subscriptions =
  UpstreamStages :: "stageSubscription list"

record stageSpec =
  Subscriptions :: "subscriptions option"

record stage =
  Namespace :: string
  Name :: string
  Spec :: "stageSpec option"

text \<open>
  Errors. \<open>Plain\<close> is an error that carries only its text (\<^verbatim>\<open>errors.New\<close>,
  \<^verbatim>\<open>errors.Errorf\<close>, \<^verbatim>\<open>fmt.Errorf\<close>), \<open>Join\<close> is \<^verbatim>\<open>goerrors.Join\<close> of a list of
  errors, \<open>ConnectError\<close> is \<^verbatim>\<open>connect.NewError(code, err)\<close>.
\<close>

datatype code = CodeInvalidArgument | CodeNotFound | CodeInternal

datatype error = Plain string | Join "error list" | ConnectError code error

text \<open>
  A Go call either returns or panics. \<^verbatim>\<open>findStageSubscribers\<close> reads
  \<^verbatim>\<open>s.Spec.Subscriptions\<close> without testing \<^verbatim>\<open>s.Spec\<close>, so a listed Stage whose
  \<^verbatim>\<open>Spec\<close> is nil makes it panic.
\<close>

datatype 'a go = Panic | Return 'a

text \<open>
  The resource store behind \<^verbatim>\<open>s.client\<close>. Its state is a value of type \<open>'w\<close> that
  every call receives and returns. \<^verbatim>\<open>List(ctx, &allStages, client.InNamespace(ns))\<close>
  yields the items it stored in \<^verbatim>\<open>allStages\<close> and its error.
\<close>

record 'w client =
  client_List :: "'w \<Rightarrow> string \<Rightarrow> (stage list \<times> error option) \<times> 'w"

section \<open>Subscriber resolution\<close>

text \<open>
  The inner loop of \<^verbatim>\<open>findStageSubscribers\<close> (lines 125-131): for every upstream
  entry of the listed Stage \<open>s\<close> whose name is the target's, \<open>s\<close> is appended to
  \<open>subscribers\<close>. The loop goes on after an append.
\<close>

fun findStageSubscribers_upstreams ::
  "string \<Rightarrow> stage \<Rightarrow> stageSubscription list \<Rightarrow> stage list \<Rightarrow> stage list" where
  "findStageSubscribers_upstreams target s [] subscribers = subscribers"
| "findStageSubscribers_upstreams target s (upstream # rest) subscribers =
     (if sub_Name upstream \<noteq> target
      then findStageSubscribers_upstreams target s rest subscribers
      else findStageSubscribers_upstreams target s rest (subscribers @ [s]))"

text \<open>The outer loop over \<^verbatim>\<open>allStages.Items\<close> (lines 120-131).\<close>

fun findStageSubscribers_items ::
  "string \<Rightarrow> stage list \<Rightarrow> stage list \<Rightarrow> stage list go" where
  "findStageSubscribers_items target [] subscribers = Return subscribers"
| "findStageSubscribers_items target (s # rest) subscribers =
     (case Spec s of
        None \<Rightarrow> Panic
      | Some sp \<Rightarrow>
          (case Subscriptions sp of
             None \<Rightarrow> findStageSubscribers_items target rest subscribers
           | Some subs \<Rightarrow>
               findStageSubscribers_items target rest
                 (findStageSubscribers_upstreams target s (UpstreamStages subs) subscribers)))"

definition findStageSubscribers ::
  "'w client \<Rightarrow> stage \<Rightarrow> 'w \<Rightarrow> (stage list \<times> error option) go \<times> 'w" where
  "findStageSubscribers c stg w =
     (case client_List c w (Namespace stg) of
        ((allStages, Some err), w') \<Rightarrow>
          (Return ([], Some (ConnectError CodeInternal err)), w')
      | ((allStages, None), w') \<Rightarrow>
          (case findStageSubscribers_items (Name stg) allStages [] of
             Panic \<Rightarrow> (Panic, w')
           | Return subscribers \<Rightarrow> (Return (subscribers, None), w')))"

text \<open>
  Vocabulary of the statements below: the upstream entries of a Stage (none when the
  \<^verbatim>\<open>Spec\<close> or the \<^verbatim>\<open>Subscriptions\<close> pointer is nil), and those of them that bear a
  given name.
\<close>

definition upstreamsOf :: "stage \<Rightarrow> stageSubscription list" where
  "upstreamsOf s =
     (case Spec s of
        None \<Rightarrow> []
      | Some sp \<Rightarrow> (case Subscriptions sp of None \<Rightarrow> [] | Some subs \<Rightarrow> UpstreamStages subs))"

definition entriesNamed :: "string \<Rightarrow> stage \<Rightarrow> stageSubscription list" where
  "entriesNamed target s = filter (\<lambda>u. sub_Name u = target) (upstreamsOf s)"

definition subscribesTo :: "stage \<Rightarrow> string \<Rightarrow> bool" where
  "subscribesTo s target = (\<exists>u \<in> set (upstreamsOf s). sub_Name u = target)"

section \<open>The promotion orchestrator\<close>

text \<open>
  The state of everything outside the handler (the resource store, and the clock and
  entropy that give a new Promotion its identity) is a value of type \<open>'w\<close>; every
  external call receives it and returns it. The \<^verbatim>\<open>context\<close> and the client handle
  that the Go code passes along are part of it.

  The functions of other packages that the handlers call are parameters:
  \<^verbatim>\<open>kargo.NewPromotion\<close>, \<^verbatim>\<open>typesv1alpha1.ToPromotionProto\<close>, and \<open>quote\<close>, the
  rendering of one string argument by the \<^verbatim>\<open>%q\<close> verb of \<^verbatim>\<open>Errorf\<close>.
\<close>

record ('w, 'p, 'q) pkgs =
  NewPromotion :: "'w \<Rightarrow> stage \<Rightarrow> string \<Rightarrow> 'p \<times> 'w"
  ToPromotionProto :: "'p \<Rightarrow> 'q"
  quote :: "string \<Rightarrow> string"

text \<open>\<^verbatim>\<open>types.NamespacedName{Namespace, Name}\<close>.\<close>

type_synonym namespacedName = "string \<times> string"

text \<open>
  The \<^verbatim>\<open>server\<close> and its replaceable collaborators. A Go result pair is a pair here
  (value first, error second). \<^verbatim>\<open>createPromotionFn\<close> receives a pointer to the new
  Promotion and may update it, so it also yields the Promotion as it left it.
\<close>

record ('w, 'f, 'p) server =
  client :: "'w client"
  validateProjectFn :: "'w \<Rightarrow> string \<Rightarrow> error option \<times> 'w"
  getStageFn :: "'w \<Rightarrow> namespacedName \<Rightarrow> (stage option \<times> error option) \<times> 'w"
  getQualifiedFreightFn ::
    "'w \<Rightarrow> namespacedName \<Rightarrow> string list \<Rightarrow> ('f option \<times> error option) \<times> 'w"
  findStageSubscribersFn :: "'w \<Rightarrow> stage \<Rightarrow> (stage list \<times> error option) \<times> 'w"
  createPromotionFn :: "'w \<Rightarrow> 'p \<Rightarrow> (error option \<times> 'p) \<times> 'w"

text \<open>
  To state which collaborators a run invoked, and with what, the model keeps a trace
  of the calls beside the outside state. \<open>invoke\<close> performs one call and records it.
\<close>

datatype 'p call =
    CallValidateProject string
  | CallGetStage namespacedName
  | CallGetQualifiedFreight namespacedName "string list"
  | CallFindStageSubscribers stage
  | CallCreatePromotion 'p

type_synonym ('p, 'w) state = "'p call list \<times> 'w"

definition invoke :: "'p call \<Rightarrow> ('w \<Rightarrow> 'a \<times> 'w) \<Rightarrow> ('p, 'w) state \<Rightarrow> 'a \<times> ('p, 'w) state" where
  "invoke c f s = (case f (snd s) of (r, w') \<Rightarrow> (r, (fst s @ [c], w')))"

record promoteSubscribersRequest =
  GetProject :: string
  GetStage :: string
  GetFreight :: string

record 'q promoteSubscribersResponse =
  Promotions :: "'q list"

text \<open>
  Modelled from the spec: \<^verbatim>\<open>validateProjectAndStageNonEmpty\<close>, whose source file is
  not among the sources. The spec (4.5, step 1): "Validate project and stageName are
  non-empty; fail with InvalidArgument otherwise". The spec fixes the code of the
  error only; the two texts are placeholders.
\<close>

definition validateProjectAndStageNonEmpty :: "string \<Rightarrow> string \<Rightarrow> error option" where
  "validateProjectAndStageNonEmpty project stg =
     (if project = [] then Some (ConnectError CodeInvalidArgument (Plain ''project should not be empty''))
      else if stg = [] then Some (ConnectError CodeInvalidArgument (Plain ''stage should not be empty''))
      else None)"

text \<open>
  \<^verbatim>\<open>PromoteSubscribers\<close>, lines 27-87: everything before the fan-out. \<open>Inl\<close> is an
  early return with its result pair, \<open>Inr\<close> the subscribers the loop will run over.
\<close>

definition PromoteSubscribers_resolve ::
  "('w, 'f, 'p) server \<Rightarrow> ('w, 'p, 'q) pkgs \<Rightarrow> promoteSubscribersRequest \<Rightarrow> ('p, 'w) state \<Rightarrow>
     (('q promoteSubscribersResponse option \<times> error option) + stage list) \<times> ('p, 'w) state" where
  "PromoteSubscribers_resolve srv pk req s0 =
     (case validateProjectAndStageNonEmpty (GetProject req) (GetStage req) of
        Some err \<Rightarrow> (Inl (None, Some err), s0)
      | None \<Rightarrow>
     (case invoke (CallValidateProject (GetProject req))
             (\<lambda>w. validateProjectFn srv w (GetProject req)) s0 of
        (Some err, s1) \<Rightarrow> (Inl (None, Some err), s1)
      | (None, s1) \<Rightarrow>
     (case invoke (CallGetStage (GetProject req, GetStage req))
             (\<lambda>w. getStageFn srv w (GetProject req, GetStage req)) s1 of
        ((stg, Some err), s2) \<Rightarrow> (Inl (None, Some (ConnectError CodeInternal err)), s2)
      | ((None, None), s2) \<Rightarrow>
          (Inl (None, Some (ConnectError CodeNotFound
             (Plain (''Stage '' @ quote pk (GetStage req) @
                     '' not found in namespace '' @ quote pk (GetProject req))))), s2)
      | ((Some stg, None), s2) \<Rightarrow>
     (case invoke (CallGetQualifiedFreight (GetProject req, GetFreight req) [GetStage req])
             (\<lambda>w. getQualifiedFreightFn srv w (GetProject req, GetFreight req) [GetStage req]) s2 of
        ((freight, Some err), s3) \<Rightarrow> (Inl (None, Some (ConnectError CodeInternal err)), s3)
      | ((None, None), s3) \<Rightarrow>
          (Inl (None, Some (ConnectError CodeNotFound
             (Plain (''no qualified Freight '' @ quote pk (GetFreight req) @
                     '' found in namespace '' @ quote pk (GetProject req))))), s3)
      | ((Some freight, None), s3) \<Rightarrow>
     (case invoke (CallFindStageSubscribers stg) (\<lambda>w. findStageSubscribersFn srv w stg) s3 of
        ((subscribers, Some err), s4) \<Rightarrow> (Inl (None, Some (ConnectError CodeInternal err)), s4)
      | ((subscribers, None), s4) \<Rightarrow>
          (if length subscribers = 0
           then (Inl (None, Some (ConnectError CodeNotFound
                   (Plain (''Stage '' @ quote pk (GetStage req) @ '' has no subscribers'')))), s4)
           else (Inr subscribers, s4)))))))"

text \<open>The loop of lines 91-98, with its two accumulators.\<close>

fun PromoteSubscribers_loop ::
  "('w, 'f, 'p) server \<Rightarrow> ('w, 'p, 'q) pkgs \<Rightarrow> string \<Rightarrow> stage list \<Rightarrow> error list \<Rightarrow> 'q list \<Rightarrow>
     ('p, 'w) state \<Rightarrow> (error list \<times> 'q list) \<times> ('p, 'w) state" where
  "PromoteSubscribers_loop srv pk freight [] promoteErrs createdPromos s =
     ((promoteErrs, createdPromos), s)"
| "PromoteSubscribers_loop srv pk freight (subscriber # rest) promoteErrs createdPromos s =
     (case NewPromotion pk (snd s) subscriber freight of
        (newPromo, w1) \<Rightarrow>
     (case invoke (CallCreatePromotion newPromo)
             (\<lambda>w. createPromotionFn srv w newPromo) (fst s, w1) of
        ((Some err, written), s2) \<Rightarrow>
          PromoteSubscribers_loop srv pk freight rest (promoteErrs @ [err]) createdPromos s2
      | ((None, written), s2) \<Rightarrow>
          PromoteSubscribers_loop srv pk freight rest promoteErrs
            (createdPromos @ [ToPromotionProto pk written]) s2))"

text \<open>Lines 89-109: the loop from empty accumulators, and the two returns.\<close>

definition PromoteSubscribers_fanOut ::
  "('w, 'f, 'p) server \<Rightarrow> ('w, 'p, 'q) pkgs \<Rightarrow> promoteSubscribersRequest \<Rightarrow> stage list \<Rightarrow>
     ('p, 'w) state \<Rightarrow> ('q promoteSubscribersResponse option \<times> error option) \<times> ('p, 'w) state" where
  "PromoteSubscribers_fanOut srv pk req subscribers s =
     (case PromoteSubscribers_loop srv pk (GetFreight req) subscribers [] [] s of
        ((promoteErrs, createdPromos), s') \<Rightarrow>
          (if length promoteErrs > 0
           then ((Some \<lparr>Promotions = createdPromos\<rparr>,
                  Some (ConnectError CodeInternal (Join promoteErrs))), s')
           else ((Some \<lparr>Promotions = createdPromos\<rparr>, None), s')))"

definition PromoteSubscribers ::
  "('w, 'f, 'p) server \<Rightarrow> ('w, 'p, 'q) pkgs \<Rightarrow> promoteSubscribersRequest \<Rightarrow> ('p, 'w) state \<Rightarrow>
     ('q promoteSubscribersResponse option \<times> error option) \<times> ('p, 'w) state" where
  "PromoteSubscribers srv pk req s0 =
     (case PromoteSubscribers_resolve srv pk req s0 of
        (Inl early, s) \<Rightarrow> (early, s)
      | (Inr subscribers, s) \<Rightarrow> PromoteSubscribers_fanOut srv pk req subscribers s)"

record promoteStageRequest =
  pst_Project :: string
  pst_Name :: string
  pst_Freight :: string

record 'q promoteStageResponse =
  Promotion :: 'q

text \<open>
  Modelled from the spec: \<^verbatim>\<open>PromoteStage\<close>, whose source file is not among the sources
  (its test is). It follows the six steps of the spec (4.5): validate that project and
  stage name are non-empty; validate the project and pass its error on as it is; fetch
  the stage (store error: Internal, absent: NotFound); ask the qualification gate with
  "the target stage's own name plus, if it subscribes to upstream stages, those upstream
  stage names" (error: Internal, absent: NotFound); build the Promotion and write it
  (write failure: Internal); return the created Promotion. The stage's own name is the
  requested one, as in \<^verbatim>\<open>PromoteSubscribers\<close>.
\<close>

definition PromoteStage ::
  "('w, 'f, 'p) server \<Rightarrow> ('w, 'p, 'q) pkgs \<Rightarrow> promoteStageRequest \<Rightarrow> ('p, 'w) state \<Rightarrow>
     ('q promoteStageResponse option \<times> error option) \<times> ('p, 'w) state" where
  "PromoteStage srv pk req s0 =
     (case validateProjectAndStageNonEmpty (pst_Project req) (pst_Name req) of
        Some err \<Rightarrow> ((None, Some err), s0)
      | None \<Rightarrow>
     (case invoke (CallValidateProject (pst_Project req))
             (\<lambda>w. validateProjectFn srv w (pst_Project req)) s0 of
        (Some err, s1) \<Rightarrow> ((None, Some err), s1)
      | (None, s1) \<Rightarrow>
     (case invoke (CallGetStage (pst_Project req, pst_Name req))
             (\<lambda>w. getStageFn srv w (pst_Project req, pst_Name req)) s1 of
        ((stg, Some err), s2) \<Rightarrow> ((None, Some (ConnectError CodeInternal err)), s2)
      | ((None, None), s2) \<Rightarrow>
          ((None, Some (ConnectError CodeNotFound
             (Plain (''Stage '' @ quote pk (pst_Name req) @
                     '' not found in namespace '' @ quote pk (pst_Project req))))), s2)
      | ((Some stg, None), s2) \<Rightarrow>
     (case invoke (CallGetQualifiedFreight (pst_Project req, pst_Freight req)
                     (pst_Name req # map sub_Name (upstreamsOf stg)))
             (\<lambda>w. getQualifiedFreightFn srv w (pst_Project req, pst_Freight req)
                     (pst_Name req # map sub_Name (upstreamsOf stg))) s2 of
        ((freight, Some err), s3) \<Rightarrow> ((None, Some (ConnectError CodeInternal err)), s3)
      | ((None, None), s3) \<Rightarrow>
          ((None, Some (ConnectError CodeNotFound
             (Plain (''no qualified Freight '' @ quote pk (pst_Freight req) @
                     '' found in namespace '' @ quote pk (pst_Project req))))), s3)
      | ((Some freight, None), s3) \<Rightarrow>
     (case NewPromotion pk (snd s3) stg (pst_Freight req) of
        (newPromo, w4) \<Rightarrow>
     (case invoke (CallCreatePromotion newPromo)
             (\<lambda>w. createPromotionFn srv w newPromo) (fst s3, w4) of
        ((Some err, written), s5) \<Rightarrow> ((None, Some (ConnectError CodeInternal err)), s5)
      | ((None, written), s5) \<Rightarrow>
          ((Some \<lparr>Promotion = ToPromotionProto pk written\<rparr>, None), s5)))))))"

section \<open>Vocabulary of the statements\<close>

text \<open>
  What happens to one subscriber in the fan-out: the Promotion built for it, the error
  of its write (none when the write succeeds), and the Promotion as the write left it.
  \<open>attempts\<close> lists this for every subscriber in turn, each step starting in the outside
  state that the step before left; \<open>attempts_end\<close> is the outside state after the last.
\<close>

record 'p attempt =
  att_subscriber :: stage
  att_built :: 'p
  att_err :: "error option"
  att_written :: 'p

fun attempts ::
  "('w, 'f, 'p) server \<Rightarrow> ('w, 'p, 'q) pkgs \<Rightarrow> string \<Rightarrow> stage list \<Rightarrow> 'w \<Rightarrow> 'p attempt list" where
  "attempts srv pk freight [] w = []"
| "attempts srv pk freight (subscriber # rest) w =
     (case NewPromotion pk w subscriber freight of
        (built, w1) \<Rightarrow>
     (case createPromotionFn srv w1 built of
        ((err, written), w2) \<Rightarrow>
          \<lparr>att_subscriber = subscriber, att_built = built, att_err = err, att_written = written\<rparr>
            # attempts srv pk freight rest w2))"

fun attempts_end ::
  "('w, 'f, 'p) server \<Rightarrow> ('w, 'p, 'q) pkgs \<Rightarrow> string \<Rightarrow> stage list \<Rightarrow> 'w \<Rightarrow> 'w" where
  "attempts_end srv pk freight [] w = w"
| "attempts_end srv pk freight (subscriber # rest) w =
     (case NewPromotion pk w subscriber freight of
        (built, w1) \<Rightarrow>
     (case createPromotionFn srv w1 built of
        (r, w2) \<Rightarrow> attempts_end srv pk freight rest w2))"

definition failures :: "'p attempt list \<Rightarrow> error list" where
  "failures A = List.map_filter att_err A"

definition successes :: "('w, 'p, 'q) pkgs \<Rightarrow> 'p attempt list \<Rightarrow> 'q list" where
  "successes pk A = map (\<lambda>a. ToPromotionProto pk (att_written a)) (filter (\<lambda>a. att_err a = None) A)"

text \<open>The Promotions whose write a trace records.\<close>

fun writesOf :: "'p call list \<Rightarrow> 'p list" where
  "writesOf [] = []"
| "writesOf (CallCreatePromotion p # cs) = p # writesOf cs"
| "writesOf (c # cs) = writesOf cs"

text \<open>The errors that an Internal error joins; none when there is no error.\<close>

fun joined :: "error option \<Rightarrow> error list" where
  "joined (Some (ConnectError CodeInternal (Join es))) = es"
| "joined r = []"

text \<open>
  The \<^verbatim>\<open>%q\<close> verb of Go's \<^verbatim>\<open>fmt\<close> renders a string with \<^verbatim>\<open>strconv.Quote\<close>: the
  string between double quotes, with a backslash before every double quote and
  backslash, the escapes \<^verbatim>\<open>\a \b \f \n \r \t \v\<close> for those control characters, \<^verbatim>\<open>\x\<close>
  and two lower-case hexadecimal digits for the other bytes below 0x20 and for 0x7f,
  and every other ASCII byte (0x20 to 0x7e) as it is. \<open>goQuote\<close> is that rendering of a
  string whose bytes are all ASCII. On a byte from 0x80 on Go decodes UTF-8 and consults
  its Unicode tables; such a string is outside this model, and \<open>goQuote\<close> gives \<open>None\<close>.
  A \<open>plainName\<close> holds only bytes that the rendering leaves as they are.
\<close>

definition lowerhex :: "nat \<Rightarrow> char" where
  "lowerhex n = ''0123456789abcdef'' ! (n mod 16)"

definition appendEscapedRune :: "char \<Rightarrow> string" where
  "appendEscapedRune r =
     (if r = CHR 0x22 \<or> r = CHR 0x5C then [CHR 0x5C, r]
      else if 0x20 \<le> (of_char r :: nat) \<and> (of_char r :: nat) < 0x7F then [r]
      else if r = CHR 0x07 then [CHR 0x5C, CHR ''a'']
      else if r = CHR 0x08 then [CHR 0x5C, CHR ''b'']
      else if r = CHR 0x0C then [CHR 0x5C, CHR ''f'']
      else if r = CHR 0x0A then [CHR 0x5C, CHR ''n'']
      else if r = CHR 0x0D then [CHR 0x5C, CHR ''r'']
      else if r = CHR 0x09 then [CHR 0x5C, CHR ''t'']
      else if r = CHR 0x0B then [CHR 0x5C, CHR ''v'']
      else [CHR 0x5C, CHR ''x'', lowerhex (of_char r div 16), lowerhex (of_char r mod 16)])"

definition goQuote :: "string \<Rightarrow> string option" where
  "goQuote s =
     (if list_all (\<lambda>c. (of_char c :: nat) < 0x80) s
      then Some ([CHR 0x22] @ concat (map appendEscapedRune s) @ [CHR 0x22])
      else None)"

definition plainName :: "string \<Rightarrow> bool" where
  "plainName s =
     list_all (\<lambda>c. 0x20 \<le> (of_char c :: nat) \<and> (of_char c :: nat) < 0x7F
                    \<and> c \<noteq> CHR 0x22 \<and> c \<noteq> CHR 0x5C) s"

section \<open>A concrete store and server\<close>

text \<open>
  A small instance to run the handlers on. The outside state is a counter, from which
  a new Promotion takes its identity; a Promotion is the triple of its stage, its
  freight and that identity. The server knows one stage, resolves a fixed list of
  subscribers, qualifies the freight for the listed stage names, and refuses the
  writes for the listed stages.
\<close>

definition exStage :: "string \<Rightarrow> string list \<Rightarrow> stage" where
  "exStage n ups =
     \<lparr>Namespace = ''proj'', Name = n,
      Spec = Some \<lparr>Subscriptions = Some \<lparr>UpstreamStages = map (\<lambda>u. \<lparr>sub_Name = u\<rparr>) ups\<rparr>\<rparr>\<rparr>"

definition exBare :: "string \<Rightarrow> stage" where
  "exBare n = \<lparr>Namespace = ''proj'', Name = n, Spec = Some \<lparr>Subscriptions = None\<rparr>\<rparr>"

definition exClient :: "stage list \<Rightarrow> nat client" where
  "exClient items = \<lparr>client_List = (\<lambda>w ns. ((filter (\<lambda>s. Namespace s = ns) items, None), w))\<rparr>"

definition exPkgs :: "(nat, string \<times> string \<times> nat, string \<times> string \<times> nat) pkgs" where
  "exPkgs =
     \<lparr>NewPromotion = (\<lambda>w stg freight. ((Name stg, freight, w), Suc w)),
      ToPromotionProto = (\<lambda>p. p),
      quote = (\<lambda>s. [CHR 0x22] @ s @ [CHR 0x22])\<rparr>"

definition exServer ::
  "stage \<Rightarrow> stage list \<Rightarrow> string list \<Rightarrow> string list \<Rightarrow> (nat, unit, string \<times> string \<times> nat) server" where
  "exServer stg subs qualified failing =
     \<lparr>client = exClient (stg # subs),
      validateProjectFn = (\<lambda>w project. (None, w)),
      getStageFn = (\<lambda>w nn. ((if nn = (Namespace stg, Name stg) then Some stg else None, None), w)),
      getQualifiedFreightFn =
        (\<lambda>w nn cands. ((if \<exists>c \<in> set cands. c \<in> set qualified then Some () else None, None), w)),
      findStageSubscribersFn = (\<lambda>w s. ((subs, None), w)),
      createPromotionFn =
        (\<lambda>w p. if fst p \<in> set failing
               then ((Some (Plain (''cannot write '' @ fst p)), p), w)
               else ((None, p), Suc w))\<rparr>"

definition exItems :: "stage list" where
  "exItems = [exStage ''B'' [''A''], exStage ''C'' [''X'', ''A''], exStage ''D'' [''X''], exBare ''E'']"

definition exTwice :: "stage list" where
  "exTwice = [exStage ''X'' [''A'', ''A'']]"

definition exLoop :: "stage list" where
  "exLoop = [exStage ''S'' [''S'']]"

definition exReq :: promoteSubscribersRequest where
  "exReq = \<lparr>GetProject = ''proj'', GetStage = ''A'', GetFreight = ''f1''\<rparr>"

definition exNoFreight :: promoteSubscribersRequest where
  "exNoFreight = \<lparr>GetProject = ''proj'', GetStage = ''A'', GetFreight = ''''\<rparr>"

definition exSubs :: "stage list" where
  "exSubs = [exStage ''B'' [''A''], exStage ''C'' [''A'']]"

definition exStageReq :: promoteStageRequest where
  "exStageReq = \<lparr>pst_Project = ''proj'', pst_Name = ''S'', pst_Freight = ''f1''\<rparr>"

definition exNoProject :: promoteSubscribersRequest where
  "exNoProject = \<lparr>GetProject = '''', GetStage = ''A'', GetFreight = ''f1''\<rparr>"

definition exNoName :: promoteStageRequest where
  "exNoName = \<lparr>pst_Project = ''proj'', pst_Name = '''', pst_Freight = ''f1''\<rparr>"

text \<open>
  Further instances: packages whose \<open>quote\<close> escapes as \<^verbatim>\<open>%q\<close> does, a request whose
  freight name holds a double quote, a Stage without a \<^verbatim>\<open>Spec\<close> and two listings
  that hold it, and a \<^verbatim>\<open>PromoteStage\<close> request with an empty freight name.
\<close>

definition exPkgsQ :: "(nat, string \<times> string \<times> nat, string \<times> string \<times> nat) pkgs" where
  "exPkgsQ = exPkgs\<lparr>quote := (\<lambda>s. [CHR 0x22] @ concat (map appendEscapedRune s) @ [CHR 0x22])\<rparr>"

definition exReqQ :: promoteSubscribersRequest where
  "exReqQ = \<lparr>GetProject = ''proj'', GetStage = ''A'', GetFreight = [CHR ''f'', CHR 0x22, CHR ''1'']\<rparr>"

definition exNoSpec :: "string \<Rightarrow> stage" where
  "exNoSpec n = \<lparr>Namespace = ''proj'', Name = n, Spec = None\<rparr>"

definition exNil :: "stage list" where
  "exNil = [exStage ''B'' [''A''], exNoSpec ''N'']"

definition exNilLoop :: "stage list" where
  "exNilLoop = [exStage ''S'' [''S''], exNoSpec ''N'']"

definition exStageNoFreight :: promoteStageRequest where
  "exStageNoFreight = \<lparr>pst_Project = ''proj'', pst_Name = ''S'', pst_Freight = ''''\<rparr>"

section \<open>Subscriber resolution: what the scan returns\<close>

lemma upstreams_closed:
  "findStageSubscribers_upstreams target s us acc =
     acc @ map (\<lambda>_. s) (filter (\<lambda>u. sub_Name u = target) us)"
  by (induction us arbitrary: acc) simp_all

lemma items_closed:
  "\<forall>s \<in> set items. Spec s \<noteq> None \<Longrightarrow>
   findStageSubscribers_items target items acc =
     Return (acc @ concat (map (\<lambda>s. map (\<lambda>_. s) (entriesNamed target s)) items))"
proof (induction items arbitrary: acc)
  case Nil
  then show ?case by simp
next
  case (Cons s rest)
  then obtain sp where sp: "Spec s = Some sp" by auto
  from Cons have rest: "\<forall>s \<in> set rest. Spec s \<noteq> None" by simp
  show ?case
    by (cases "Subscriptions sp")
       (simp_all add: sp Cons.IH [OF rest] entriesNamed_def upstreamsOf_def upstreams_closed)
qed

lemma items_panic:
  "\<exists>s \<in> set items. Spec s = None \<Longrightarrow> findStageSubscribers_items target items acc = Panic"
  by (induction items arbitrary: acc) (auto split: option.splits)

lemma set_resolved:
  "set (concat (map (\<lambda>s. map (\<lambda>_. s) (entriesNamed target s)) items)) =
     {X \<in> set items. subscribesTo X target}"
  by (auto simp: entriesNamed_def subscribesTo_def filter_empty_conv)

lemma count_list_const:
  "count_list (map (\<lambda>_. s) ys) X = (if s = X then length ys else 0)"
  by (induction ys) auto

lemma count_resolved:
  "count_list (concat (map (\<lambda>s. map (\<lambda>_. s) (entriesNamed target s)) items)) X =
     count_list items X * length (entriesNamed target X)"
  by (induction items) (simp_all add: count_list_const)

lemma findStageSubscribers_listed:
  assumes "client_List c w (Namespace A) = ((items, None), w')"
      and "\<forall>s \<in> set items. Spec s \<noteq> None"
  shows "findStageSubscribers c A w =
     (Return (concat (map (\<lambda>s. map (\<lambda>_. s) (entriesNamed (Name A) s)) items), None), w')"
  using assms by (simp add: findStageSubscribers_def items_closed)

lemma distinct_count_list:
  "(\<forall>x. count_list xs x \<le> 1) \<Longrightarrow> distinct xs"
proof (induction xs)
  case Nil
  then show ?case by simp
next
  case (Cons a xs)
  have "count_list xs a = 0"
    using Cons.prems [rule_format, of a] by simp
  then have "a \<notin> set xs" by (simp add: count_list_0_iff)
  moreover have "distinct xs"
  proof (rule Cons.IH, rule allI)
    fix x show "count_list xs x \<le> 1"
      using Cons.prems [rule_format, of x] by (simp split: if_splits)
  qed
  ultimately show ?case by simp
qed

lemma count_list_distinct: "distinct xs \<Longrightarrow> count_list xs x = (if x \<in> set xs then 1 else 0)"
  by (induction xs) auto

lemma items_returns:
  "findStageSubscribers_items target items acc = Return R \<Longrightarrow> \<forall>s \<in> set items. Spec s \<noteq> None"
proof (rule ccontr)
  assume ret: "findStageSubscribers_items target items acc = Return R"
     and "\<not> (\<forall>s \<in> set items. Spec s \<noteq> None)"
  then have "\<exists>s \<in> set items. Spec s = None" by simp
  then have "findStageSubscribers_items target items acc = Panic" by (rule items_panic)
  with ret show False by simp
qed

text \<open>
  C4, as stated for every listing, fails: when a listed Stage has no \<^verbatim>\<open>Spec\<close>, the scan
  panics at \<^verbatim>\<open>s.Spec.Subscriptions\<close> and returns nothing, so a listed Stage that
  subscribes to the target is not returned.
\<close>

theorem findStageSubscribers_nil_spec_counterexample:
  "exStage ''B'' [''A''] \<in> set exNil
   \<and> subscribesTo (exStage ''B'' [''A'']) (Name (exBare ''A''))
   \<and> client_List (exClient exNil) (0::nat) (Namespace (exBare ''A'')) = ((exNil, None), 0)
   \<and> findStageSubscribers (exClient exNil) (exBare ''A'') (0::nat) = (Panic, 0)"
  by (simp add: findStageSubscribers_def exClient_def exNil_def exNoSpec_def exStage_def exBare_def
        subscribesTo_def upstreamsOf_def)

text \<open>
  C4, amended. For every stage listing in which every listed Stage has a \<^verbatim>\<open>Spec\<close>,
  \<^verbatim>\<open>findStageSubscribers\<close> returns a Stage \<open>X\<close> as a subscriber of \<open>A\<close> if and only if \<open>X\<close>
  is listed and one of its upstream entries bears exactly \<open>A\<close>'s name, and a reordered
  listing yields the same Stages. In every listing, a Stage with a nil or empty
  subscription list is in no list that \<^verbatim>\<open>findStageSubscribers\<close> returns.
\<close>

theorem findStageSubscribers_subscribers_iff:
  fixes c :: "'w client"
  assumes list: "client_List c w (Namespace A) = ((items, None), w')"
  shows "(\<forall>R e w''. findStageSubscribers c A w = (Return (R, e), w'')
            \<longrightarrow> (\<forall>X. upstreamsOf X = [] \<longrightarrow> X \<notin> set R))
       \<and> ((\<forall>s \<in> set items. Spec s \<noteq> None) \<longrightarrow>
           (\<exists>R. findStageSubscribers c A w = (Return (R, None), w')
              \<and> (\<forall>X. X \<in> set R \<longleftrightarrow> X \<in> set items \<and> subscribesTo X (Name A))
              \<and> (\<forall>X. upstreamsOf X = [] \<longrightarrow> X \<notin> set R)
              \<and> (\<forall>(c2 :: 'w client) w2 w2' items2.
                    client_List c2 w2 (Namespace A) = ((items2, None), w2')
                      \<and> mset items2 = mset items
                    \<longrightarrow> (\<exists>R2. findStageSubscribers c2 A w2 = (Return (R2, None), w2')
                           \<and> set R2 = set R))))"
proof (intro conjI allI impI)
  let ?res = "\<lambda>xs. concat (map (\<lambda>s. map (\<lambda>_. s) (entriesNamed (Name A) s)) xs)"
  fix R e w'' X
  assume ret: "findStageSubscribers c A w = (Return (R, e), w'')" and bare: "upstreamsOf X = []"
  from ret list obtain R' where "findStageSubscribers_items (Name A) items [] = Return R'"
    by (cases "findStageSubscribers_items (Name A) items []") (simp_all add: findStageSubscribers_def)
  then have spec: "\<forall>s \<in> set items. Spec s \<noteq> None" by (rule items_returns)
  from findStageSubscribers_listed [OF list spec] ret have "R = ?res items" by simp
  then have "set R = {X \<in> set items. subscribesTo X (Name A)}"
    by (simp only: set_resolved)
  with bare show "X \<notin> set R" by (simp add: subscribesTo_def)
next
  let ?res = "\<lambda>xs. concat (map (\<lambda>s. map (\<lambda>_. s) (entriesNamed (Name A) s)) xs)"
  assume spec: "\<forall>s \<in> set items. Spec s \<noteq> None"
  have run: "findStageSubscribers c A w = (Return (?res items, None), w')"
    by (rule findStageSubscribers_listed [OF list spec])
  have mem: "\<forall>X. X \<in> set (?res items) \<longleftrightarrow> X \<in> set items \<and> subscribesTo X (Name A)"
    by (simp only: set_resolved) simp
  have bare: "\<forall>X. upstreamsOf X = [] \<longrightarrow> X \<notin> set (?res items)"
    by (simp only: set_resolved) (simp add: subscribesTo_def)
  have order: "\<exists>R2. findStageSubscribers c2 A w2 = (Return (R2, None), w2') \<and> set R2 = set (?res items)"
    if l2: "client_List c2 w2 (Namespace A) = ((items2, None), w2')"
      and perm: "mset items2 = mset items" for c2 :: "'w client" and w2 w2' items2
  proof -
    have eq: "set items2 = set items" using perm by (rule mset_eq_setD)
    with spec have spec2: "\<forall>s \<in> set items2. Spec s \<noteq> None" by simp
    have "findStageSubscribers c2 A w2 = (Return (?res items2, None), w2')"
      by (rule findStageSubscribers_listed [OF l2 spec2])
    moreover have "set (?res items2) = set (?res items)"
      by (simp only: set_resolved eq)
    ultimately show ?thesis by blast
  qed
  show "\<exists>R. findStageSubscribers c A w = (Return (R, None), w')
              \<and> (\<forall>X. X \<in> set R \<longleftrightarrow> X \<in> set items \<and> subscribesTo X (Name A))
              \<and> (\<forall>X. upstreamsOf X = [] \<longrightarrow> X \<notin> set R)
              \<and> (\<forall>(c2 :: 'w client) w2 w2' items2.
                    client_List c2 w2 (Namespace A) = ((items2, None), w2')
                      \<and> mset items2 = mset items
                    \<longrightarrow> (\<exists>R2. findStageSubscribers c2 A w2 = (Return (R2, None), w2')
                           \<and> set R2 = set R))"
  proof (intro exI [of _ "?res items"] conjI)
    show "findStageSubscribers c A w = (Return (?res items, None), w')" by (rule run)
    show "\<forall>X. X \<in> set (?res items) \<longleftrightarrow> X \<in> set items \<and> subscribesTo X (Name A)"
      by (rule mem)
    show "\<forall>X. upstreamsOf X = [] \<longrightarrow> X \<notin> set (?res items)" by (rule bare)
    show "\<forall>(c2 :: 'w client) w2 w2' items2. client_List c2 w2 (Namespace A) = ((items2, None), w2')
                  \<and> mset items2 = mset items
                \<longrightarrow> (\<exists>R2. findStageSubscribers c2 A w2 = (Return (R2, None), w2')
                       \<and> set R2 = set (?res items))"
    proof (intro allI impI)
      fix c2 :: "'w client" and w2 w2' items2
      assume "client_List c2 w2 (Namespace A) = ((items2, None), w2') \<and> mset items2 = mset items"
      then show "\<exists>R2. findStageSubscribers c2 A w2 = (Return (R2, None), w2')
                       \<and> set R2 = set (?res items)"
        using order [of c2 w2 items2 w2'] by simp
    qed
  qed
qed

theorem findStageSubscribers_subscribers_iff_witness:
  "client_List (exClient exItems) (0::nat) (Namespace (exBare ''A'')) = ((exItems, None), 0)
   \<and> list_all (\<lambda>s. Spec s \<noteq> None) exItems
   \<and> (\<exists>R. findStageSubscribers (exClient exItems) (exBare ''A'') 0 = (Return (R, None), 0)
         \<and> (\<forall>X. X \<in> set R \<longleftrightarrow> X \<in> set exItems \<and> subscribesTo X (Name (exBare ''A'')))
         \<and> (\<forall>X. upstreamsOf X = [] \<longrightarrow> X \<notin> set R)
         \<and> (\<forall>(c2 :: nat client) w2 w2' items2.
               client_List c2 w2 (Namespace (exBare ''A'')) = ((items2, None), w2')
                 \<and> mset items2 = mset exItems
               \<longrightarrow> (\<exists>R2. findStageSubscribers c2 (exBare ''A'') w2 = (Return (R2, None), w2')
                      \<and> set R2 = set R)))
   \<and> findStageSubscribers (exClient exItems) (exBare ''A'') 0 =
       (Return ([exStage ''B'' [''A''], exStage ''C'' [''X'', ''A'']], None), 0)
   \<and> upstreamsOf (exBare ''E'') = []
   \<and> exBare ''E'' \<notin> set [exStage ''B'' [''A''], exStage ''C'' [''X'', ''A'']]"
proof -
  have h1: "client_List (exClient exItems) (0::nat) (Namespace (exBare ''A'')) = ((exItems, None), 0)"
    by (simp add: exClient_def exItems_def exStage_def exBare_def)
  have h2: "\<forall>s \<in> set exItems. Spec s \<noteq> None"
    by (simp add: exItems_def exStage_def exBare_def)
  have run: "findStageSubscribers (exClient exItems) (exBare ''A'') 0 =
       (Return ([exStage ''B'' [''A''], exStage ''C'' [''X'', ''A'']], None), 0)"
    by (simp add: findStageSubscribers_def exClient_def exItems_def exStage_def exBare_def)
  have bare: "upstreamsOf (exBare ''E'') = []"
    by (simp add: upstreamsOf_def exBare_def)
  note t = findStageSubscribers_subscribers_iff [OF h1]
  from t [THEN conjunct1, rule_format, OF run bare]
  have out: "exBare ''E'' \<notin> set [exStage ''B'' [''A''], exStage ''C'' [''X'', ''A'']]" .
  show ?thesis
    using t [THEN conjunct2, THEN mp, OF h2] h1 h2 run bare out
    unfolding list_all_iff by (intro conjI)
qed

text \<open>
  C7, as stated, fails: a listing with one Stage whose subscription list names the
  target twice yields that Stage twice, since the inner loop appends at every matching
  entry.
\<close>

theorem findStageSubscribers_once_counterexample:
  "distinct exTwice
   \<and> findStageSubscribers (exClient exTwice) (exBare ''A'') (0::nat) =
       (Return ([exStage ''X'' [''A'', ''A''], exStage ''X'' [''A'', ''A'']], None), 0)
   \<and> \<not> distinct [exStage ''X'' [''A'', ''A''], exStage ''X'' [''A'', ''A'']]"
  by (simp add: findStageSubscribers_def exClient_def exTwice_def exStage_def exBare_def)

text \<open>
  C7, amended. For every listing in which each Stage appears at most once and every
  listed Stage has a \<^verbatim>\<open>Spec\<close>, each listed Stage appears in the result once per upstream
  entry of its own that bears the target's name (and no other Stage appears); so each
  Stage appears at most once when no listed Stage names the target more than once.
\<close>

theorem findStageSubscribers_multiplicity:
  assumes list: "client_List c w (Namespace A) = ((items, None), w')"
      and spec: "\<forall>s \<in> set items. Spec s \<noteq> None"
      and dist: "distinct items"
  shows "\<exists>R. findStageSubscribers c A w = (Return (R, None), w')
           \<and> (\<forall>X. count_list R X = (if X \<in> set items then length (entriesNamed (Name A) X) else 0))
           \<and> ((\<forall>s \<in> set items. length (entriesNamed (Name A) s) \<le> 1) \<longrightarrow> distinct R)"
proof -
  let ?R = "concat (map (\<lambda>s. map (\<lambda>_. s) (entriesNamed (Name A) s)) items)"
  have run: "findStageSubscribers c A w = (Return (?R, None), w')"
    by (rule findStageSubscribers_listed [OF list spec])
  have cnt: "\<forall>X. count_list ?R X = (if X \<in> set items then length (entriesNamed (Name A) X) else 0)"
    by (simp add: count_resolved count_list_distinct [OF dist])
  have "distinct ?R" if once: "\<forall>s \<in> set items. length (entriesNamed (Name A) s) \<le> 1"
  proof (rule distinct_count_list, rule allI)
    fix x show "count_list ?R x \<le> 1"
      using cnt once by simp
  qed
  then have "(\<forall>s \<in> set items. length (entriesNamed (Name A) s) \<le> 1) \<longrightarrow> distinct ?R" ..
  with run cnt show ?thesis by (intro exI [of _ ?R] conjI)
qed

theorem findStageSubscribers_multiplicity_witness:
  "client_List (exClient exItems) (0::nat) (Namespace (exBare ''A'')) = ((exItems, None), 0)
   \<and> list_all (\<lambda>s. Spec s \<noteq> None) exItems
   \<and> distinct exItems
   \<and> list_all (\<lambda>s. length (entriesNamed (Name (exBare ''A'')) s) \<le> 1) exItems
   \<and> (\<exists>R. findStageSubscribers (exClient exItems) (exBare ''A'') 0 = (Return (R, None), 0)
         \<and> (\<forall>X. count_list R X =
               (if X \<in> set exItems then length (entriesNamed (Name (exBare ''A'')) X) else 0))
         \<and> distinct R)"
proof -
  have h1: "client_List (exClient exItems) (0::nat) (Namespace (exBare ''A'')) = ((exItems, None), 0)"
    by (simp add: exClient_def exItems_def exStage_def exBare_def)
  have h2: "\<forall>s \<in> set exItems. Spec s \<noteq> None"
    by (simp add: exItems_def exStage_def exBare_def)
  have h3: "distinct exItems"
    by (simp add: exItems_def exStage_def exBare_def)
  have h4: "\<forall>s \<in> set exItems. length (entriesNamed (Name (exBare ''A'')) s) \<le> 1"
    by (simp add: exItems_def exStage_def exBare_def entriesNamed_def upstreamsOf_def)
  from findStageSubscribers_multiplicity [OF h1 h2 h3] h4
  have "\<exists>R. findStageSubscribers (exClient exItems) (exBare ''A'') 0 = (Return (R, None), 0)
         \<and> (\<forall>X. count_list R X =
               (if X \<in> set exItems then length (entriesNamed (Name (exBare ''A'')) X) else 0))
         \<and> distinct R"
    by blast
  with h1 h2 h3 h4 show ?thesis unfolding list_all_iff by (intro conjI)
qed

text \<open>
  C8, as stated for every Stage, fails: when the listing holds, beside the Stage that
  names itself upstream, a Stage without a \<^verbatim>\<open>Spec\<close>, the scan panics and the Stage is
  not returned.
\<close>

theorem findStageSubscribers_self_nil_spec_counterexample:
  "exStage ''S'' [''S''] \<in> set exNilLoop
   \<and> subscribesTo (exStage ''S'' [''S'']) (Name (exStage ''S'' [''S'']))
   \<and> client_List (exClient exNilLoop) (0::nat) (Namespace (exStage ''S'' [''S''])) = ((exNilLoop, None), 0)
   \<and> findStageSubscribers (exClient exNilLoop) (exStage ''S'' [''S'']) (0::nat) = (Panic, 0)"
  by (simp add: findStageSubscribers_def exClient_def exNilLoop_def exNoSpec_def exStage_def
        subscribesTo_def upstreamsOf_def)

text \<open>
  C8, amended. A Stage \<open>S\<close> whose subscription list has an upstream entry bearing \<open>S\<close>'s
  own name is returned by \<^verbatim>\<open>findStageSubscribers\<close> applied to \<open>S\<close>, whenever the listing
  of its namespace succeeds, holds \<open>S\<close>, and every listed Stage has a \<^verbatim>\<open>Spec\<close>: no
  self-loop is filtered out.
\<close>

theorem findStageSubscribers_self_subscriber:
  assumes list: "client_List c w (Namespace S) = ((items, None), w')"
      and spec: "\<forall>s \<in> set items. Spec s \<noteq> None"
      and listed: "S \<in> set items"
      and self: "subscribesTo S (Name S)"
  shows "\<exists>R. findStageSubscribers c S w = (Return (R, None), w') \<and> S \<in> set R"
proof -
  let ?R = "concat (map (\<lambda>s. map (\<lambda>_. s) (entriesNamed (Name S) s)) items)"
  have "findStageSubscribers c S w = (Return (?R, None), w')"
    by (rule findStageSubscribers_listed [OF list spec])
  moreover have "S \<in> set ?R"
    using listed self by (simp only: set_resolved) simp
  ultimately show ?thesis by blast
qed

theorem findStageSubscribers_self_subscriber_witness:
  "client_List (exClient exLoop) (0::nat) (Namespace (exStage ''S'' [''S''])) = ((exLoop, None), 0)
   \<and> list_all (\<lambda>s. Spec s \<noteq> None) exLoop
   \<and> exStage ''S'' [''S''] \<in> set exLoop
   \<and> subscribesTo (exStage ''S'' [''S'']) (Name (exStage ''S'' [''S'']))
   \<and> (\<exists>R. findStageSubscribers (exClient exLoop) (exStage ''S'' [''S'']) 0 = (Return (R, None), 0)
         \<and> exStage ''S'' [''S''] \<in> set R)"
proof -
  have h1: "client_List (exClient exLoop) (0::nat) (Namespace (exStage ''S'' [''S''])) = ((exLoop, None), 0)"
    by (simp add: exClient_def exLoop_def exStage_def)
  have h2: "\<forall>s \<in> set exLoop. Spec s \<noteq> None"
    by (simp add: exLoop_def exStage_def)
  have h3: "exStage ''S'' [''S''] \<in> set exLoop"
    by (simp add: exLoop_def)
  have h4: "subscribesTo (exStage ''S'' [''S'']) (Name (exStage ''S'' [''S'']))"
    by (simp add: subscribesTo_def upstreamsOf_def exStage_def)
  from findStageSubscribers_self_subscriber [OF h1 h2 h3 h4] h1 h2 h3 h4
  show ?thesis unfolding list_all_iff by (intro conjI)
qed

section \<open>The fan-out loop\<close>

lemma invoke_pair:
  "invoke c f (tr, w) = (case f w of (r, w') \<Rightarrow> (r, (tr @ [c], w')))"
  by (simp add: invoke_def)

lemma loop_closed:
  "PromoteSubscribers_loop srv pk freight subs errs promos (tr, w) =
     ((errs @ failures (attempts srv pk freight subs w),
       promos @ successes pk (attempts srv pk freight subs w)),
      (tr @ map (\<lambda>a. CallCreatePromotion (att_built a)) (attempts srv pk freight subs w),
       attempts_end srv pk freight subs w))"
proof (induction subs arbitrary: errs promos tr w)
  case Nil
  then show ?case by (simp add: failures_def successes_def List.map_filter_simps)
next
  case (Cons sub rest)
  obtain built w1 where np: "NewPromotion pk w sub freight = (built, w1)"
    by (cases "NewPromotion pk w sub freight")
  obtain err written w2 where cr: "createPromotionFn srv w1 built = ((err, written), w2)"
    by (cases "createPromotionFn srv w1 built") auto
  show ?case
    by (cases err)
       (simp_all add: np cr invoke_pair Cons.IH failures_def successes_def List.map_filter_simps)
qed

lemma attempts_subscribers: "map att_subscriber (attempts srv pk freight subs w) = subs"
  by (induction subs arbitrary: w) (simp_all split: prod.splits)

lemma attempts_length: "length (attempts srv pk freight subs w) = length subs"
  by (induction subs arbitrary: w) (simp_all split: prod.splits)

lemma attempts_provenance:
  "a \<in> set (attempts srv pk freight subs w) \<Longrightarrow>
   \<exists>w1 w2. NewPromotion pk w1 (att_subscriber a) freight = (att_built a, w2) \<and>
           fst (createPromotionFn srv w2 (att_built a)) = (att_err a, att_written a)"
proof (induction subs arbitrary: w)
  case Nil
  then show ?case by simp
next
  case (Cons sub rest)
  obtain built w1 where np: "NewPromotion pk w sub freight = (built, w1)"
    by (cases "NewPromotion pk w sub freight")
  obtain err written w2 where cr: "createPromotionFn srv w1 built = ((err, written), w2)"
    by (cases "createPromotionFn srv w1 built") auto
  from Cons.prems consider
    "a = \<lparr>att_subscriber = sub, att_built = built, att_err = err, att_written = written\<rparr>"
    | "a \<in> set (attempts srv pk freight rest w2)"
    by (auto simp: np cr)
  then show ?case
  proof cases
    case 1
    then show ?thesis using np cr by (intro exI [of _ w] exI [of _ w1]) simp
  next
    case 2
    then show ?thesis by (rule Cons.IH)
  qed
qed

lemma failures_successes_length:
  "length (failures A) + length (successes pk A) = length A"
  by (induction A) (auto simp: failures_def successes_def List.map_filter_simps split: option.splits)

lemma writesOf_creates: "writesOf (map (\<lambda>a. CallCreatePromotion (f a)) A) = map f A"
  by (induction A) simp_all

lemma fanOut_closed:
  "PromoteSubscribers_fanOut srv pk req L (tr, w) =
     ((Some \<lparr>Promotions = successes pk (attempts srv pk (GetFreight req) L w)\<rparr>,
       (if failures (attempts srv pk (GetFreight req) L w) = [] then None
        else Some (ConnectError CodeInternal (Join (failures (attempts srv pk (GetFreight req) L w)))))),
      (tr @ map (\<lambda>a. CallCreatePromotion (att_built a)) (attempts srv pk (GetFreight req) L w),
       attempts_end srv pk (GetFreight req) L w))"
  by (simp add: PromoteSubscribers_fanOut_def loop_closed)

section \<open>The steps before the fan-out\<close>

lemma resolve_invalid:
  "GetProject req = [] \<or> GetStage req = [] \<Longrightarrow>
   \<exists>m. PromoteSubscribers_resolve srv pk req s0 =
         (Inl (None, Some (ConnectError CodeInvalidArgument m)), s0)"
  by (auto simp: PromoteSubscribers_resolve_def validateProjectAndStageNonEmpty_def)

lemma resolve_unqualified:
  assumes "GetProject req \<noteq> []" and "GetStage req \<noteq> []"
      and "validateProjectFn srv w0 (GetProject req) = (None, w1)"
      and "getStageFn srv w1 (GetProject req, GetStage req) = ((Some stg, None), w2)"
      and "getQualifiedFreightFn srv w2 (GetProject req, GetFreight req) [GetStage req] =
             ((None, None), w3)"
  shows "PromoteSubscribers_resolve srv pk req (tr, w0) =
           (Inl (None, Some (ConnectError CodeNotFound
              (Plain (''no qualified Freight '' @ quote pk (GetFreight req) @
                      '' found in namespace '' @ quote pk (GetProject req))))),
            (tr @ [CallValidateProject (GetProject req),
                   CallGetStage (GetProject req, GetStage req),
                   CallGetQualifiedFreight (GetProject req, GetFreight req) [GetStage req]], w3))"
  using assms
  by (simp add: PromoteSubscribers_resolve_def validateProjectAndStageNonEmpty_def invoke_pair)

lemma resolve_subscribers:
  assumes "GetProject req \<noteq> []" and "GetStage req \<noteq> []"
      and "validateProjectFn srv w0 (GetProject req) = (None, w1)"
      and "getStageFn srv w1 (GetProject req, GetStage req) = ((Some stg, None), w2)"
      and "getQualifiedFreightFn srv w2 (GetProject req, GetFreight req) [GetStage req] =
             ((Some f, None), w3)"
      and "findStageSubscribersFn srv w3 stg = ((L, None), w4)"
  shows "PromoteSubscribers_resolve srv pk req (tr, w0) =
           ((if L = [] then
               Inl (None, Some (ConnectError CodeNotFound
                 (Plain (''Stage '' @ quote pk (GetStage req) @ '' has no subscribers''))))
             else Inr L),
            (tr @ [CallValidateProject (GetProject req),
                   CallGetStage (GetProject req, GetStage req),
                   CallGetQualifiedFreight (GetProject req, GetFreight req) [GetStage req],
                   CallFindStageSubscribers stg], w4))"
  using assms
  by (simp add: PromoteSubscribers_resolve_def validateProjectAndStageNonEmpty_def invoke_pair)

lemma resolve_trace:
  "\<exists>n stg. fst (snd (PromoteSubscribers_resolve srv pk req (tr, w))) =
     tr @ take n [CallValidateProject (GetProject req),
                  CallGetStage (GetProject req, GetStage req),
                  CallGetQualifiedFreight (GetProject req, GetFreight req) [GetStage req],
                  CallFindStageSubscribers stg]
     \<and> (GetProject req \<noteq> [] \<and> GetStage req \<noteq> [] \<longrightarrow> 0 < n)"
proof (cases "validateProjectAndStageNonEmpty (GetProject req) (GetStage req)")
  case (Some e)
  then show ?thesis
    by (intro exI [of _ 0])
       (auto simp: PromoteSubscribers_resolve_def validateProjectAndStageNonEmpty_def
             split: if_splits)
next
  case None
  obtain e1 w1 where vp: "validateProjectFn srv w (GetProject req) = (e1, w1)"
    by (cases "validateProjectFn srv w (GetProject req)")
  show ?thesis
  proof (cases e1)
    case (Some e)
    then show ?thesis using None vp
      by (intro exI [of _ 1]) (simp add: PromoteSubscribers_resolve_def invoke_pair)
  next
    case e1: None
    obtain st e2 w2 where gs: "getStageFn srv w1 (GetProject req, GetStage req) = ((st, e2), w2)"
      by (cases "getStageFn srv w1 (GetProject req, GetStage req)") auto
    show ?thesis
    proof (cases "e2 = None \<and> st \<noteq> None")
      case False
      then show ?thesis using None vp e1 gs
        by (intro exI [of _ 2])
           (auto simp: PromoteSubscribers_resolve_def invoke_pair split: option.splits)
    next
      case True
      then obtain stg where st: "st = Some stg" and e2: "e2 = None" by auto
      obtain fr e3 w3 where gq:
        "getQualifiedFreightFn srv w2 (GetProject req, GetFreight req) [GetStage req] = ((fr, e3), w3)"
        by (cases "getQualifiedFreightFn srv w2 (GetProject req, GetFreight req) [GetStage req]") auto
      show ?thesis
      proof (cases "e3 = None \<and> fr \<noteq> None")
        case False
        then show ?thesis using None vp e1 gs st e2 gq
          by (intro exI [of _ 3])
             (auto simp: PromoteSubscribers_resolve_def invoke_pair split: option.splits)
      next
        case True
        obtain subs e4 w4 where fs: "findStageSubscribersFn srv w3 stg = ((subs, e4), w4)"
          by (cases "findStageSubscribersFn srv w3 stg") auto
        show ?thesis using None vp e1 gs st e2 gq True fs
          by (intro exI [of _ 4] exI [of _ stg])
             (auto simp: PromoteSubscribers_resolve_def invoke_pair split: option.splits)
      qed
    qed
  qed
qed

lemma PromoteSubscribers_trace:
  "\<exists>n stg ps. fst (snd (PromoteSubscribers srv pk req (tr, w))) =
     tr @ take n [CallValidateProject (GetProject req),
                  CallGetStage (GetProject req, GetStage req),
                  CallGetQualifiedFreight (GetProject req, GetFreight req) [GetStage req],
                  CallFindStageSubscribers stg]
        @ map CallCreatePromotion ps
     \<and> (GetProject req \<noteq> [] \<and> GetStage req \<noteq> [] \<longrightarrow> 0 < n)"
proof -
  obtain r tr1 w1 where res: "PromoteSubscribers_resolve srv pk req (tr, w) = (r, (tr1, w1))"
    by (cases "PromoteSubscribers_resolve srv pk req (tr, w)") auto
  from resolve_trace [of srv pk req tr w] res obtain n stg where
    tr1: "tr1 = tr @ take n [CallValidateProject (GetProject req),
                  CallGetStage (GetProject req, GetStage req),
                  CallGetQualifiedFreight (GetProject req, GetFreight req) [GetStage req],
                  CallFindStageSubscribers stg]"
    and pos: "GetProject req \<noteq> [] \<and> GetStage req \<noteq> [] \<longrightarrow> 0 < n"
    by auto
  show ?thesis
  proof (cases r)
    case (Inl early)
    then have "fst (snd (PromoteSubscribers srv pk req (tr, w))) = tr1"
      by (simp add: PromoteSubscribers_def res)
    then show ?thesis unfolding tr1 using pos
      by (intro exI [of _ n] exI [of _ stg] exI [of _ "[]"]) simp
  next
    case (Inr L)
    then have "fst (snd (PromoteSubscribers srv pk req (tr, w))) =
        tr1 @ map CallCreatePromotion (map att_built (attempts srv pk (GetFreight req) L w1))"
      by (simp add: PromoteSubscribers_def res fanOut_closed comp_def)
    then show ?thesis unfolding tr1 using pos
      by (intro exI [of _ n] exI [of _ stg]
            exI [of _ "map att_built (attempts srv pk (GetFreight req) L w1)"]) simp
  qed
qed

lemma sublist_mid: "sublist xs (ps @ xs @ ss)"
  by (rule sublist_appendI)

lemma sublist_last: "sublist xs (ps @ xs)"
  using sublist_appendI [of xs ps "[]"] by simp

lemma plain_escaped: "list_all (\<lambda>c. 0x20 \<le> (of_char c :: nat) \<and> (of_char c :: nat) < 0x7F
                    \<and> c \<noteq> CHR 0x22 \<and> c \<noteq> CHR 0x5C) s \<Longrightarrow> concat (map appendEscapedRune s) = s"
  by (induction s) (simp_all add: appendEscapedRune_def)

lemma plain_ascii:
  "plainName s \<Longrightarrow> list_all (\<lambda>c. (of_char c :: nat) < 0x80) s"
  by (induction s) (simp_all add: plainName_def)

lemma goQuote_plain:
  assumes "plainName s"
  shows "goQuote s = Some ([CHR 0x22] @ s @ [CHR 0x22])"
  using assms plain_ascii [OF assms] plain_escaped [of s]
  by (simp add: goQuote_def plainName_def)

lemma sublist_quoted: "sublist s (ps @ ([CHR 0x22] @ s @ [CHR 0x22]) @ ss)"
proof -
  have "sublist s ((ps @ [CHR 0x22]) @ s @ ([CHR 0x22] @ ss))" by (rule sublist_appendI)
  then show ?thesis by simp
qed

lemmas ex_defs = exReq_def exNoFreight_def exSubs_def exStageReq_def exServer_def exPkgs_def
  exStage_def exBare_def exClient_def

lemmas run_defs = PromoteSubscribers_def PromoteSubscribers_resolve_def
  PromoteSubscribers_fanOut_def validateProjectAndStageNonEmpty_def invoke_def

section \<open>The claims about the orchestrator\<close>

text \<open>
  C1. When \<^verbatim>\<open>PromoteSubscribers\<close> reaches the fan-out with subscribers \<open>L\<close>, a write is
  attempted for every subscriber, whatever the outcomes of the others; the response
  holds the Promotions of all the writes that succeeded, and the error is absent when no
  write failed and otherwise one Internal error that joins every write's error; with
  no failure the list has one Promotion per subscriber. In particular, with two
  subscribers of which one's write fails with \<open>e\<close> and the other's succeeds, the result
  is the one-element list of the other's Promotion with the Internal error joining \<open>e\<close>.
\<close>

theorem PromoteSubscribers_partial_failure:
  fixes srv :: "('w, 'f, 'p) server" and pk :: "('w, 'p, 'q) pkgs"
  assumes reach: "PromoteSubscribers_resolve srv pk req s0 = (Inr L, (tr, w))"
  defines "A \<equiv> attempts srv pk (GetFreight req) L w"
  shows "map att_subscriber A = L
       \<and> writesOf (drop (length tr) (fst (snd (PromoteSubscribers srv pk req s0)))) = map att_built A
       \<and> fst (PromoteSubscribers srv pk req s0) =
           (Some \<lparr>Promotions = successes pk A\<rparr>,
            if failures A = [] then None else Some (ConnectError CodeInternal (Join (failures A))))
       \<and> (failures A = [] \<longrightarrow> length (successes pk A) = length L)
       \<and> (\<forall>b c e. (A = [b, c] \<or> A = [c, b]) \<and> att_err b = Some e \<and> att_err c = None \<longrightarrow>
            fst (PromoteSubscribers srv pk req s0) =
              (Some \<lparr>Promotions = [ToPromotionProto pk (att_written c)]\<rparr>,
               Some (ConnectError CodeInternal (Join [e]))))"
proof -
  have run: "PromoteSubscribers srv pk req s0 =
     ((Some \<lparr>Promotions = successes pk A\<rparr>,
       (if failures A = [] then None else Some (ConnectError CodeInternal (Join (failures A))))),
      (tr @ map (\<lambda>a. CallCreatePromotion (att_built a)) A,
       attempts_end srv pk (GetFreight req) L w))"
    by (simp add: PromoteSubscribers_def reach fanOut_closed A_def)
  have subs: "map att_subscriber A = L"
    by (simp add: A_def attempts_subscribers)
  have writes: "writesOf (drop (length tr) (fst (snd (PromoteSubscribers srv pk req s0)))) = map att_built A"
    by (simp add: run writesOf_creates)
  have shape: "fst (PromoteSubscribers srv pk req s0) =
           (Some \<lparr>Promotions = successes pk A\<rparr>,
            if failures A = [] then None else Some (ConnectError CodeInternal (Join (failures A))))"
    by (simp add: run)
  have two: "fst (PromoteSubscribers srv pk req s0) =
              (Some \<lparr>Promotions = [ToPromotionProto pk (att_written c)]\<rparr>,
               Some (ConnectError CodeInternal (Join [e])))"
    if "(A = [b, c] \<or> A = [c, b]) \<and> att_err b = Some e \<and> att_err c = None" for b c e
    using that
    by (auto simp: shape failures_def successes_def List.map_filter_simps)
  have full: "length (successes pk A) = length L" if "failures A = []"
    using failures_successes_length [of A pk] that by (simp add: A_def attempts_length)
  show ?thesis
  proof (intro conjI allI impI)
    show "map att_subscriber A = L" by (rule subs)
    show "writesOf (drop (length tr) (fst (snd (PromoteSubscribers srv pk req s0)))) = map att_built A"
      by (rule writes)
    show "fst (PromoteSubscribers srv pk req s0) =
           (Some \<lparr>Promotions = successes pk A\<rparr>,
            if failures A = [] then None else Some (ConnectError CodeInternal (Join (failures A))))"
      by (rule shape)
    show "length (successes pk A) = length L" if "failures A = []"
      using that by (rule full)
    show "fst (PromoteSubscribers srv pk req s0) =
              (Some \<lparr>Promotions = [ToPromotionProto pk (att_written c)]\<rparr>,
               Some (ConnectError CodeInternal (Join [e])))"
      if "(A = [b, c] \<or> A = [c, b]) \<and> att_err b = Some e \<and> att_err c = None" for b c e
      using that by (rule two)
  qed
qed

theorem PromoteSubscribers_partial_failure_witness:
  "PromoteSubscribers_resolve (exServer (exBare ''A'') exSubs [''A''] [''B'']) exPkgs exReq ([], 0) =
     (Inr [exStage ''B'' [''A''], exStage ''C'' [''A'']],
      ([CallValidateProject ''proj'', CallGetStage (''proj'', ''A''),
        CallGetQualifiedFreight (''proj'', ''f1'') [''A''],
        CallFindStageSubscribers (exBare ''A'')], 0))
   \<and> writesOf (drop 4 (fst (snd
        (PromoteSubscribers (exServer (exBare ''A'') exSubs [''A''] [''B'']) exPkgs exReq ([], 0)))))
       = [(''B'', ''f1'', 0), (''C'', ''f1'', 1)]
   \<and> fst (PromoteSubscribers (exServer (exBare ''A'') exSubs [''A''] [''B'']) exPkgs exReq ([], 0)) =
       (Some \<lparr>Promotions = [(''C'', ''f1'', 1)]\<rparr>,
        Some (ConnectError CodeInternal (Join [Plain ''cannot write B''])))"
proof -
  have h: "PromoteSubscribers_resolve (exServer (exBare ''A'') exSubs [''A''] [''B'']) exPkgs exReq ([], 0) =
     (Inr [exStage ''B'' [''A''], exStage ''C'' [''A'']],
      ([CallValidateProject ''proj'', CallGetStage (''proj'', ''A''),
        CallGetQualifiedFreight (''proj'', ''f1'') [''A''],
        CallFindStageSubscribers (exBare ''A'')], 0))"
    by (simp add: run_defs ex_defs)
  have a: "attempts (exServer (exBare ''A'') exSubs [''A''] [''B'']) exPkgs (GetFreight exReq)
             [exStage ''B'' [''A''], exStage ''C'' [''A'']] 0 =
           [\<lparr>att_subscriber = exStage ''B'' [''A''], att_built = (''B'', ''f1'', 0),
             att_err = Some (Plain ''cannot write B''), att_written = (''B'', ''f1'', 0)\<rparr>,
            \<lparr>att_subscriber = exStage ''C'' [''A''], att_built = (''C'', ''f1'', 1),
             att_err = None, att_written = (''C'', ''f1'', 1)\<rparr>]"
    by (simp add: ex_defs)
  show ?thesis
    using PromoteSubscribers_partial_failure [OF h] h unfolding a
    by (simp add: failures_def successes_def List.map_filter_simps exPkgs_def eval_nat_numeral)
qed

lemma joined_failures:
  "joined (if es = [] then None else Some (ConnectError CodeInternal (Join es))) = es"
  by simp

text \<open>
  C9. When \<^verbatim>\<open>PromoteSubscribers\<close> reaches the fan-out with subscribers \<open>L\<close>, the calls it
  adds to the trace are exactly one write per element of \<open>L\<close>; the number of returned
  Promotions plus the number of joined errors is the length of \<open>L\<close>; the returned
  Promotions are those of the successful attempts in the order of \<open>L\<close>; and the Promotion
  of each attempt was built by \<^verbatim>\<open>NewPromotion\<close> from the subscriber at the same position
  and the requested freight name, and is the one the write received.
\<close>

theorem PromoteSubscribers_one_write_each:
  fixes srv :: "('w, 'f, 'p) server" and pk :: "('w, 'p, 'q) pkgs"
  assumes reach: "PromoteSubscribers_resolve srv pk req s0 = (Inr L, (tr, w))"
  defines "A \<equiv> attempts srv pk (GetFreight req) L w"
  shows "length A = length L
       \<and> fst (snd (PromoteSubscribers srv pk req s0)) = tr @ map (\<lambda>a. CallCreatePromotion (att_built a)) A
       \<and> (\<exists>res. fst (fst (PromoteSubscribers srv pk req s0)) = Some res
             \<and> length (Promotions res) + length (joined (snd (fst (PromoteSubscribers srv pk req s0))))
                 = length L
             \<and> Promotions res =
                 map (\<lambda>a. ToPromotionProto pk (att_written a)) (filter (\<lambda>a. att_err a = None) A))
       \<and> subseq (map att_subscriber (filter (\<lambda>a. att_err a = None) A)) L
       \<and> (\<forall>i < length L. att_subscriber (A ! i) = L ! i)
       \<and> (\<forall>a \<in> set A. \<exists>w1 w2.
             NewPromotion pk w1 (att_subscriber a) (GetFreight req) = (att_built a, w2)
             \<and> fst (createPromotionFn srv w2 (att_built a)) = (att_err a, att_written a))"
proof -
  have run: "PromoteSubscribers srv pk req s0 =
     ((Some \<lparr>Promotions = successes pk A\<rparr>,
       (if failures A = [] then None else Some (ConnectError CodeInternal (Join (failures A))))),
      (tr @ map (\<lambda>a. CallCreatePromotion (att_built a)) A,
       attempts_end srv pk (GetFreight req) L w))"
    by (simp add: PromoteSubscribers_def reach fanOut_closed A_def)
  have len: "length A = length L"
    by (simp add: A_def attempts_length)
  have subs: "map att_subscriber A = L"
    by (simp add: A_def attempts_subscribers)
  have trace: "fst (snd (PromoteSubscribers srv pk req s0)) =
      tr @ map (\<lambda>a. CallCreatePromotion (att_built a)) A"
    by (simp add: run)
  have count: "length (successes pk A) + length (failures A) = length L"
    using failures_successes_length [of A pk] len by simp
  have res: "\<exists>res. fst (fst (PromoteSubscribers srv pk req s0)) = Some res
             \<and> length (Promotions res) + length (joined (snd (fst (PromoteSubscribers srv pk req s0))))
                 = length L
             \<and> Promotions res =
                 map (\<lambda>a. ToPromotionProto pk (att_written a)) (filter (\<lambda>a. att_err a = None) A)"
  proof (intro exI [of _ "\<lparr>Promotions = successes pk A\<rparr>"] conjI)
    show "fst (fst (PromoteSubscribers srv pk req s0)) = Some \<lparr>Promotions = successes pk A\<rparr>"
      by (simp add: run)
    have "snd (fst (PromoteSubscribers srv pk req s0)) =
        (if failures A = [] then None else Some (ConnectError CodeInternal (Join (failures A))))"
      by (simp add: run)
    then show "length (Promotions \<lparr>Promotions = successes pk A\<rparr>)
        + length (joined (snd (fst (PromoteSubscribers srv pk req s0)))) = length L"
      using count by (simp only: joined_failures) simp
    show "Promotions \<lparr>Promotions = successes pk A\<rparr> =
        map (\<lambda>a. ToPromotionProto pk (att_written a)) (filter (\<lambda>a. att_err a = None) A)"
      by (simp add: successes_def)
  qed
  have "subseq (map att_subscriber (filter (\<lambda>a. att_err a = None) A)) (map att_subscriber A)"
    by (intro subseq_map subseq_filter_left)
  then have order: "subseq (map att_subscriber (filter (\<lambda>a. att_err a = None) A)) L"
    by (simp only: subs)
  have idx: "\<forall>i < length L. att_subscriber (A ! i) = L ! i"
  proof (intro allI impI)
    fix i assume "i < length L"
    then have "i < length A" by (simp add: len)
    then have "map att_subscriber A ! i = att_subscriber (A ! i)" by (rule nth_map)
    then show "att_subscriber (A ! i) = L ! i" by (simp only: subs)
  qed
  have prov: "\<forall>a \<in> set A. \<exists>w1 w2.
             NewPromotion pk w1 (att_subscriber a) (GetFreight req) = (att_built a, w2)
             \<and> fst (createPromotionFn srv w2 (att_built a)) = (att_err a, att_written a)"
    unfolding A_def by (intro ballI attempts_provenance)
  from len trace res order idx prov show ?thesis by (intro conjI)
qed

theorem PromoteSubscribers_one_write_each_witness:
  "PromoteSubscribers_resolve (exServer (exBare ''A'') exSubs [''A''] [''B'']) exPkgs exReq ([], 0) =
     (Inr [exStage ''B'' [''A''], exStage ''C'' [''A'']],
      ([CallValidateProject ''proj'', CallGetStage (''proj'', ''A''),
        CallGetQualifiedFreight (''proj'', ''f1'') [''A''],
        CallFindStageSubscribers (exBare ''A'')], 0))
   \<and> fst (snd (PromoteSubscribers (exServer (exBare ''A'') exSubs [''A''] [''B'']) exPkgs exReq ([], 0))) =
       [CallValidateProject ''proj'', CallGetStage (''proj'', ''A''),
        CallGetQualifiedFreight (''proj'', ''f1'') [''A''],
        CallFindStageSubscribers (exBare ''A''),
        CallCreatePromotion (''B'', ''f1'', 0), CallCreatePromotion (''C'', ''f1'', 1)]
   \<and> (\<exists>res. fst (fst (PromoteSubscribers (exServer (exBare ''A'') exSubs [''A''] [''B'']) exPkgs exReq ([], 0)))
               = Some res
         \<and> length (Promotions res)
             + length (joined (snd (fst
                 (PromoteSubscribers (exServer (exBare ''A'') exSubs [''A''] [''B'']) exPkgs exReq ([], 0)))))
             = 2
         \<and> Promotions res = [(''C'', ''f1'', 1)])"
proof -
  have h: "PromoteSubscribers_resolve (exServer (exBare ''A'') exSubs [''A''] [''B'']) exPkgs exReq ([], 0) =
     (Inr [exStage ''B'' [''A''], exStage ''C'' [''A'']],
      ([CallValidateProject ''proj'', CallGetStage (''proj'', ''A''),
        CallGetQualifiedFreight (''proj'', ''f1'') [''A''],
        CallFindStageSubscribers (exBare ''A'')], 0))"
    by (simp add: run_defs ex_defs)
  have a: "attempts (exServer (exBare ''A'') exSubs [''A''] [''B'']) exPkgs (GetFreight exReq)
             [exStage ''B'' [''A''], exStage ''C'' [''A'']] 0 =
           [\<lparr>att_subscriber = exStage ''B'' [''A''], att_built = (''B'', ''f1'', 0),
             att_err = Some (Plain ''cannot write B''), att_written = (''B'', ''f1'', 0)\<rparr>,
            \<lparr>att_subscriber = exStage ''C'' [''A''], att_built = (''C'', ''f1'', 1),
             att_err = None, att_written = (''C'', ''f1'', 1)\<rparr>]"
    by (simp add: ex_defs)
  show ?thesis
    using PromoteSubscribers_one_write_each [OF h] h unfolding a
    by (simp add: exPkgs_def eval_nat_numeral)
qed

text \<open>
  C3, as stated, fails in its message: the names are rendered by \<^verbatim>\<open>%q\<close>, which escapes.
  For the freight name \<^verbatim>\<open>f"1\<close> (the freight name is not validated) the message holds
  \<^verbatim>\<open>"f\"1"\<close> and does not contain the name.
\<close>

theorem PromoteSubscribers_message_counterexample:
  "goQuote (GetFreight exReqQ) = Some (quote exPkgsQ (GetFreight exReqQ))
   \<and> goQuote (GetProject exReqQ) = Some (quote exPkgsQ (GetProject exReqQ))
   \<and> GetFreight exReqQ = [CHR ''f'', CHR 0x22, CHR ''1'']
   \<and> PromoteSubscribers (exServer (exBare ''A'') exSubs [] []) exPkgsQ exReqQ ([], 0) =
       ((None, Some (ConnectError CodeNotFound (Plain
          (''no qualified Freight '' @ [CHR 0x22, CHR ''f'', CHR 0x5C, CHR 0x22, CHR ''1'', CHR 0x22]
            @ '' found in namespace '' @ [CHR 0x22] @ ''proj'' @ [CHR 0x22])))),
        ([CallValidateProject ''proj'', CallGetStage (''proj'', ''A''),
          CallGetQualifiedFreight (''proj'', [CHR ''f'', CHR 0x22, CHR ''1'']) [''A'']], 0))
   \<and> \<not> sublist [CHR ''f'', CHR 0x22, CHR ''1'']
          (''no qualified Freight '' @ [CHR 0x22, CHR ''f'', CHR 0x5C, CHR 0x22, CHR ''1'', CHR 0x22]
            @ '' found in namespace '' @ [CHR 0x22] @ ''proj'' @ [CHR 0x22])"
proof (intro conjI)
  show "goQuote (GetFreight exReqQ) = Some (quote exPkgsQ (GetFreight exReqQ))"
    by (simp add: goQuote_def exPkgsQ_def exReqQ_def)
  show "goQuote (GetProject exReqQ) = Some (quote exPkgsQ (GetProject exReqQ))"
    by (simp add: goQuote_def exPkgsQ_def exReqQ_def)
  show "GetFreight exReqQ = [CHR ''f'', CHR 0x22, CHR ''1'']"
    by (simp add: exReqQ_def)
  show "PromoteSubscribers (exServer (exBare ''A'') exSubs [] []) exPkgsQ exReqQ ([], 0) =
       ((None, Some (ConnectError CodeNotFound (Plain
          (''no qualified Freight '' @ [CHR 0x22, CHR ''f'', CHR 0x5C, CHR 0x22, CHR ''1'', CHR 0x22]
            @ '' found in namespace '' @ [CHR 0x22] @ ''proj'' @ [CHR 0x22])))),
        ([CallValidateProject ''proj'', CallGetStage (''proj'', ''A''),
          CallGetQualifiedFreight (''proj'', [CHR ''f'', CHR 0x22, CHR ''1'']) [''A'']], 0))"
    by (simp add: run_defs ex_defs exPkgsQ_def exReqQ_def appendEscapedRune_def)
  show "\<not> sublist [CHR ''f'', CHR 0x22, CHR ''1'']
          (''no qualified Freight '' @ [CHR 0x22, CHR ''f'', CHR 0x5C, CHR 0x22, CHR ''1'', CHR 0x22]
            @ '' found in namespace '' @ [CHR 0x22] @ ''proj'' @ [CHR 0x22])"
    by (simp add: sublist_code)
qed

text \<open>
  C3, amended. In every run of \<^verbatim>\<open>PromoteSubscribers\<close>, a call of the qualification gate
  has the candidate list \<open>[stage]\<close>, the requested stage name alone (and the namespaced
  name of the requested freight). If the gate returns absent, the result is a NotFound
  error whose message is "no qualified Freight ", the \<^verbatim>\<open>%q\<close> rendering of the freight
  name, " found in namespace " and the \<^verbatim>\<open>%q\<close> rendering of the project; it contains
  the freight name, and the project, when that name holds only characters that \<^verbatim>\<open>%q\<close>
  leaves as they are; and no promotion write is in the trace.
\<close>

theorem PromoteSubscribers_gate_candidates:
  fixes srv :: "('w, 'f, 'p) server" and pk :: "('w, 'p, 'q) pkgs"
  shows "(\<forall>c \<in> set (fst (snd (PromoteSubscribers srv pk req ([], w0)))).
            \<forall>nn cands. c = CallGetQualifiedFreight nn cands \<longrightarrow>
              nn = (GetProject req, GetFreight req) \<and> cands = [GetStage req]
              \<and> set cands = {GetStage req})
       \<and> (GetProject req \<noteq> [] \<and> GetStage req \<noteq> []
            \<and> validateProjectFn srv w0 (GetProject req) = (None, w1)
            \<and> getStageFn srv w1 (GetProject req, GetStage req) = ((Some stg, None), w2)
            \<and> getQualifiedFreightFn srv w2 (GetProject req, GetFreight req) [GetStage req]
                = ((None, None), w3)
          \<longrightarrow> (\<exists>msg. msg = ''no qualified Freight '' @ quote pk (GetFreight req) @
                             '' found in namespace '' @ quote pk (GetProject req)
                \<and> PromoteSubscribers srv pk req ([], w0) =
                  ((None, Some (ConnectError CodeNotFound (Plain msg))),
                   ([CallValidateProject (GetProject req),
                     CallGetStage (GetProject req, GetStage req),
                     CallGetQualifiedFreight (GetProject req, GetFreight req) [GetStage req]], w3))
                \<and> sublist (quote pk (GetFreight req)) msg
                \<and> sublist (quote pk (GetProject req)) msg
                \<and> (goQuote (GetFreight req) = Some (quote pk (GetFreight req))
                     \<and> plainName (GetFreight req) \<longrightarrow> sublist (GetFreight req) msg)
                \<and> (goQuote (GetProject req) = Some (quote pk (GetProject req))
                     \<and> plainName (GetProject req) \<longrightarrow> sublist (GetProject req) msg))
              \<and> writesOf (fst (snd (PromoteSubscribers srv pk req ([], w0)))) = [])"
proof (intro conjI ballI allI impI)
  fix c nn cands
  assume c: "c \<in> set (fst (snd (PromoteSubscribers srv pk req ([], w0))))"
     and eq: "c = CallGetQualifiedFreight nn cands"
  from PromoteSubscribers_trace [of srv pk req "[]" w0] obtain n stg' ps where
    "fst (snd (PromoteSubscribers srv pk req ([], w0))) =
       [] @ take n [CallValidateProject (GetProject req),
                  CallGetStage (GetProject req, GetStage req),
                  CallGetQualifiedFreight (GetProject req, GetFreight req) [GetStage req],
                  CallFindStageSubscribers stg']
        @ map CallCreatePromotion ps"
    by blast
  with c have "c \<in> set [CallValidateProject (GetProject req),
                  CallGetStage (GetProject req, GetStage req),
                  CallGetQualifiedFreight (GetProject req, GetFreight req) [GetStage req],
                  CallFindStageSubscribers stg'] \<or> c \<in> set (map CallCreatePromotion ps)"
    by (auto dest: in_set_takeD)
  with eq have both: "nn = (GetProject req, GetFreight req) \<and> cands = [GetStage req]"
    by auto
  from both show "nn = (GetProject req, GetFreight req)" by simp
  from both show "cands = [GetStage req]" by simp
  from both show "set cands = {GetStage req}" by simp
next
  assume hyps: "GetProject req \<noteq> [] \<and> GetStage req \<noteq> []
            \<and> validateProjectFn srv w0 (GetProject req) = (None, w1)
            \<and> getStageFn srv w1 (GetProject req, GetStage req) = ((Some stg, None), w2)
            \<and> getQualifiedFreightFn srv w2 (GetProject req, GetFreight req) [GetStage req]
                = ((None, None), w3)"
  let ?msg = "''no qualified Freight '' @ quote pk (GetFreight req) @
                      '' found in namespace '' @ quote pk (GetProject req)"
  have res: "PromoteSubscribers_resolve srv pk req ([], w0) =
           (Inl (None, Some (ConnectError CodeNotFound (Plain ?msg))),
            ([] @ [CallValidateProject (GetProject req),
                   CallGetStage (GetProject req, GetStage req),
                   CallGetQualifiedFreight (GetProject req, GetFreight req) [GetStage req]], w3))"
    by (rule resolve_unqualified [where ?w1.0 = w1 and stg = stg and ?w2.0 = w2])
       (simp_all add: hyps)
  have run: "PromoteSubscribers srv pk req ([], w0) =
                  ((None, Some (ConnectError CodeNotFound (Plain ?msg))),
                   ([CallValidateProject (GetProject req),
                     CallGetStage (GetProject req, GetStage req),
                     CallGetQualifiedFreight (GetProject req, GetFreight req) [GetStage req]], w3))"
    by (simp add: PromoteSubscribers_def res)
  have qf: "sublist (quote pk (GetFreight req)) ?msg"
    by (rule sublist_mid)
  have "sublist (quote pk (GetProject req))
            ((''no qualified Freight '' @ quote pk (GetFreight req) @
                      '' found in namespace '') @ quote pk (GetProject req))"
    by (rule sublist_last)
  then have qp: "sublist (quote pk (GetProject req)) ?msg" by simp
  have rf: "sublist (GetFreight req) ?msg"
    if "goQuote (GetFreight req) = Some (quote pk (GetFreight req)) \<and> plainName (GetFreight req)"
  proof -
    from that goQuote_plain [of "GetFreight req"]
    have q: "quote pk (GetFreight req) = [CHR 0x22] @ GetFreight req @ [CHR 0x22]" by simp
    show ?thesis unfolding q by (rule sublist_quoted)
  qed
  have rp: "sublist (GetProject req) ?msg"
    if "goQuote (GetProject req) = Some (quote pk (GetProject req)) \<and> plainName (GetProject req)"
  proof -
    from that goQuote_plain [of "GetProject req"]
    have q: "quote pk (GetProject req) = [CHR 0x22] @ GetProject req @ [CHR 0x22]" by simp
    have "sublist (GetProject req)
            ((''no qualified Freight '' @ quote pk (GetFreight req) @ '' found in namespace '')
              @ ([CHR 0x22] @ GetProject req @ [CHR 0x22]) @ [])"
      by (rule sublist_quoted)
    then show ?thesis unfolding q by simp
  qed
  show "\<exists>msg. msg = ''no qualified Freight '' @ quote pk (GetFreight req) @
                             '' found in namespace '' @ quote pk (GetProject req)
                \<and> PromoteSubscribers srv pk req ([], w0) =
                  ((None, Some (ConnectError CodeNotFound (Plain msg))),
                   ([CallValidateProject (GetProject req),
                     CallGetStage (GetProject req, GetStage req),
                     CallGetQualifiedFreight (GetProject req, GetFreight req) [GetStage req]], w3))
                \<and> sublist (quote pk (GetFreight req)) msg
                \<and> sublist (quote pk (GetProject req)) msg
                \<and> (goQuote (GetFreight req) = Some (quote pk (GetFreight req))
                     \<and> plainName (GetFreight req) \<longrightarrow> sublist (GetFreight req) msg)
                \<and> (goQuote (GetProject req) = Some (quote pk (GetProject req))
                     \<and> plainName (GetProject req) \<longrightarrow> sublist (GetProject req) msg)"
  proof (intro exI [of _ ?msg] conjI impI)
    show "?msg = ?msg" by (rule refl)
    show "PromoteSubscribers srv pk req ([], w0) =
                  ((None, Some (ConnectError CodeNotFound (Plain ?msg))),
                   ([CallValidateProject (GetProject req),
                     CallGetStage (GetProject req, GetStage req),
                     CallGetQualifiedFreight (GetProject req, GetFreight req) [GetStage req]], w3))"
      by (rule run)
    show "sublist (quote pk (GetFreight req)) ?msg" by (rule qf)
    show "sublist (quote pk (GetProject req)) ?msg" by (rule qp)
    show "sublist (GetFreight req) ?msg"
      if "goQuote (GetFreight req) = Some (quote pk (GetFreight req)) \<and> plainName (GetFreight req)"
      using that by (rule rf)
    show "sublist (GetProject req) ?msg"
      if "goQuote (GetProject req) = Some (quote pk (GetProject req)) \<and> plainName (GetProject req)"
      using that by (rule rp)
  qed
  show "writesOf (fst (snd (PromoteSubscribers srv pk req ([], w0)))) = []"
    by (simp add: run)
qed

theorem PromoteSubscribers_gate_candidates_witness:
  "CallGetQualifiedFreight (''proj'', ''f1'') [''A'']
     \<in> set (fst (snd (PromoteSubscribers (exServer (exBare ''A'') exSubs [] []) exPkgs exReq ([], 0))))
   \<and> GetProject exReq \<noteq> [] \<and> GetStage exReq \<noteq> []
   \<and> validateProjectFn (exServer (exBare ''A'') exSubs [] []) 0 (GetProject exReq) = (None, 0)
   \<and> getStageFn (exServer (exBare ''A'') exSubs [] []) 0 (GetProject exReq, GetStage exReq)
        = ((Some (exBare ''A''), None), 0)
   \<and> getQualifiedFreightFn (exServer (exBare ''A'') exSubs [] []) 0
        (GetProject exReq, GetFreight exReq) [GetStage exReq] = ((None, None), 0)
   \<and> goQuote ''f1'' = Some (quote exPkgs ''f1'') \<and> plainName ''f1''
   \<and> goQuote ''proj'' = Some (quote exPkgs ''proj'') \<and> plainName ''proj''
   \<and> (\<exists>msg. PromoteSubscribers (exServer (exBare ''A'') exSubs [] []) exPkgs exReq ([], 0) =
          ((None, Some (ConnectError CodeNotFound (Plain msg))),
           ([CallValidateProject ''proj'', CallGetStage (''proj'', ''A''),
             CallGetQualifiedFreight (''proj'', ''f1'') [''A'']], 0))
        \<and> sublist (quote exPkgs ''f1'') msg \<and> sublist (quote exPkgs ''proj'') msg
        \<and> sublist ''f1'' msg \<and> sublist ''proj'' msg)
   \<and> writesOf (fst (snd (PromoteSubscribers (exServer (exBare ''A'') exSubs [] []) exPkgs exReq ([], 0)))) = []"
proof -
  have h: "GetProject exReq \<noteq> [] \<and> GetStage exReq \<noteq> []
     \<and> validateProjectFn (exServer (exBare ''A'') exSubs [] []) 0 (GetProject exReq) = (None, 0)
     \<and> getStageFn (exServer (exBare ''A'') exSubs [] []) 0 (GetProject exReq, GetStage exReq)
          = ((Some (exBare ''A''), None), 0)
     \<and> getQualifiedFreightFn (exServer (exBare ''A'') exSubs [] []) 0
          (GetProject exReq, GetFreight exReq) [GetStage exReq] = ((None, None), 0)"
    by (simp add: ex_defs)
  have fields: "GetProject exReq = ''proj''" "GetStage exReq = ''A''" "GetFreight exReq = ''f1''"
    by (simp_all add: exReq_def)
  have pf: "plainName ''f1''" and pp: "plainName ''proj''"
    by (simp_all add: plainName_def)
  have gf: "goQuote ''f1'' = Some (quote exPkgs ''f1'')"
    by (simp add: goQuote_plain [OF pf] exPkgs_def)
  have gp: "goQuote ''proj'' = Some (quote exPkgs ''proj'')"
    by (simp add: goQuote_plain [OF pp] exPkgs_def)
  have run: "fst (snd (PromoteSubscribers (exServer (exBare ''A'') exSubs [] []) exPkgs exReq ([], 0))) =
      [CallValidateProject ''proj'', CallGetStage (''proj'', ''A''),
       CallGetQualifiedFreight (''proj'', ''f1'') [''A'']]"
    by (simp add: run_defs ex_defs)
  have first: "CallGetQualifiedFreight (''proj'', ''f1'') [''A'']
     \<in> set (fst (snd (PromoteSubscribers (exServer (exBare ''A'') exSubs [] []) exPkgs exReq ([], 0))))"
    by (simp add: run)
  note t = PromoteSubscribers_gate_candidates
         [of "exServer (exBare ''A'') exSubs [] []" exPkgs exReq 0 0 "exBare ''A''" 0 0,
          THEN conjunct2, THEN mp, OF h, unfolded fields]
  from t obtain msg where
    m: "PromoteSubscribers (exServer (exBare ''A'') exSubs [] []) exPkgs exReq ([], 0) =
          ((None, Some (ConnectError CodeNotFound (Plain msg))),
           ([CallValidateProject ''proj'', CallGetStage (''proj'', ''A''),
             CallGetQualifiedFreight (''proj'', ''f1'') [''A'']], 0))"
    and s1: "sublist (quote exPkgs ''f1'') msg" and s2: "sublist (quote exPkgs ''proj'') msg"
    and s3: "goQuote ''f1'' = Some (quote exPkgs ''f1'') \<and> plainName ''f1'' \<longrightarrow> sublist ''f1'' msg"
    and s4: "goQuote ''proj'' = Some (quote exPkgs ''proj'') \<and> plainName ''proj'' \<longrightarrow> sublist ''proj'' msg"
    by (elim conjE exE)
  from s3 gf pf have r1: "sublist ''f1'' msg" by (elim impE) (intro conjI)
  from s4 gp pp have r2: "sublist ''proj'' msg" by (elim impE) (intro conjI)
  from m s1 s2 r1 r2 have ex: "\<exists>msg. PromoteSubscribers (exServer (exBare ''A'') exSubs [] []) exPkgs exReq ([], 0) =
          ((None, Some (ConnectError CodeNotFound (Plain msg))),
           ([CallValidateProject ''proj'', CallGetStage (''proj'', ''A''),
             CallGetQualifiedFreight (''proj'', ''f1'') [''A'']], 0))
        \<and> sublist (quote exPkgs ''f1'') msg \<and> sublist (quote exPkgs ''proj'') msg
        \<and> sublist ''f1'' msg \<and> sublist ''proj'' msg"
    by (intro exI [of _ msg] conjI)
  from t have w: "writesOf (fst (snd (PromoteSubscribers (exServer (exBare ''A'') exSubs [] []) exPkgs exReq ([], 0)))) = []"
    by (elim conjE)
  from first h gf pf gp pp ex w show ?thesis by (intro conjI) simp_all
qed

text \<open>
  C10. The gate is consulted before the subscribers are resolved: if it returns absent,
  \<^verbatim>\<open>PromoteSubscribers\<close> fails NotFound with the "no qualified Freight" message whatever
  \<^verbatim>\<open>findStageSubscribersFn\<close> is (also one that would return no subscribers), and the
  trace holds no call of it.
\<close>

theorem PromoteSubscribers_gate_before_resolution:
  fixes srv :: "('w, 'f, 'p) server" and pk :: "('w, 'p, 'q) pkgs"
  assumes ne: "GetProject req \<noteq> []" "GetStage req \<noteq> []"
      and vp: "validateProjectFn srv w0 (GetProject req) = (None, w1)"
      and gs: "getStageFn srv w1 (GetProject req, GetStage req) = ((Some stg, None), w2)"
      and gq: "getQualifiedFreightFn srv w2 (GetProject req, GetFreight req) [GetStage req]
                = ((None, None), w3)"
  shows "(\<forall>g. PromoteSubscribers (srv\<lparr>findStageSubscribersFn := g\<rparr>) pk req ([], w0) =
            ((None, Some (ConnectError CodeNotFound
                (Plain (''no qualified Freight '' @ quote pk (GetFreight req) @
                        '' found in namespace '' @ quote pk (GetProject req))))),
             ([CallValidateProject (GetProject req),
               CallGetStage (GetProject req, GetStage req),
               CallGetQualifiedFreight (GetProject req, GetFreight req) [GetStage req]], w3)))
       \<and> (\<forall>g s. CallFindStageSubscribers s \<notin>
             set (fst (snd (PromoteSubscribers (srv\<lparr>findStageSubscribersFn := g\<rparr>) pk req ([], w0)))))"
proof -
  have run: "PromoteSubscribers (srv\<lparr>findStageSubscribersFn := g\<rparr>) pk req ([], w0) =
            ((None, Some (ConnectError CodeNotFound
                (Plain (''no qualified Freight '' @ quote pk (GetFreight req) @
                        '' found in namespace '' @ quote pk (GetProject req))))),
             ([CallValidateProject (GetProject req),
               CallGetStage (GetProject req, GetStage req),
               CallGetQualifiedFreight (GetProject req, GetFreight req) [GetStage req]], w3))" for g
  proof -
    have "PromoteSubscribers_resolve (srv\<lparr>findStageSubscribersFn := g\<rparr>) pk req ([], w0) =
           (Inl (None, Some (ConnectError CodeNotFound
              (Plain (''no qualified Freight '' @ quote pk (GetFreight req) @
                      '' found in namespace '' @ quote pk (GetProject req))))),
            ([] @ [CallValidateProject (GetProject req),
                   CallGetStage (GetProject req, GetStage req),
                   CallGetQualifiedFreight (GetProject req, GetFreight req) [GetStage req]], w3))"
      by (rule resolve_unqualified [where ?w1.0 = w1 and stg = stg and ?w2.0 = w2])
         (simp_all add: ne vp gs gq)
    then show ?thesis by (simp add: PromoteSubscribers_def)
  qed
  show ?thesis
  proof (intro conjI allI)
    fix g
    show "PromoteSubscribers (srv\<lparr>findStageSubscribersFn := g\<rparr>) pk req ([], w0) =
            ((None, Some (ConnectError CodeNotFound
                (Plain (''no qualified Freight '' @ quote pk (GetFreight req) @
                        '' found in namespace '' @ quote pk (GetProject req))))),
             ([CallValidateProject (GetProject req),
               CallGetStage (GetProject req, GetStage req),
               CallGetQualifiedFreight (GetProject req, GetFreight req) [GetStage req]], w3))"
      by (rule run)
  next
    fix g s
    show "CallFindStageSubscribers s \<notin>
             set (fst (snd (PromoteSubscribers (srv\<lparr>findStageSubscribersFn := g\<rparr>) pk req ([], w0))))"
      by (simp add: run)
  qed
qed

theorem PromoteSubscribers_gate_before_resolution_witness:
  "GetProject exReq \<noteq> [] \<and> GetStage exReq \<noteq> []
   \<and> validateProjectFn (exServer (exBare ''A'') [] [] []) 0 (GetProject exReq) = (None, 0)
   \<and> getStageFn (exServer (exBare ''A'') [] [] []) 0 (GetProject exReq, GetStage exReq)
        = ((Some (exBare ''A''), None), 0)
   \<and> getQualifiedFreightFn (exServer (exBare ''A'') [] [] []) 0
        (GetProject exReq, GetFreight exReq) [GetStage exReq] = ((None, None), 0)
   \<and> findStageSubscribersFn (exServer (exBare ''A'') [] [] []) 0 (exBare ''A'') = (([], None), 0)
   \<and> PromoteSubscribers (exServer (exBare ''A'') [] [] []) exPkgs exReq ([], 0) =
       ((None, Some (ConnectError CodeNotFound
           (Plain (''no qualified Freight '' @ quote exPkgs ''f1'' @
                   '' found in namespace '' @ quote exPkgs ''proj'')))),
        ([CallValidateProject ''proj'', CallGetStage (''proj'', ''A''),
          CallGetQualifiedFreight (''proj'', ''f1'') [''A'']], 0))"
proof -
  have h1: "GetProject exReq \<noteq> []" and h2: "GetStage exReq \<noteq> []"
    by (simp_all add: exReq_def)
  have h3: "validateProjectFn (exServer (exBare ''A'') [] [] []) 0 (GetProject exReq) = (None, 0)"
    by (simp add: exServer_def)
  have h4: "getStageFn (exServer (exBare ''A'') [] [] []) 0 (GetProject exReq, GetStage exReq)
        = ((Some (exBare ''A''), None), 0)"
    by (simp add: ex_defs)
  have h5: "getQualifiedFreightFn (exServer (exBare ''A'') [] [] []) 0
        (GetProject exReq, GetFreight exReq) [GetStage exReq] = ((None, None), 0)"
    by (simp add: ex_defs)
  have h6: "findStageSubscribersFn (exServer (exBare ''A'') [] [] []) 0 (exBare ''A'') = (([], None), 0)"
    by (simp add: exServer_def)
  have fields: "GetProject exReq = ''proj''" "GetStage exReq = ''A''" "GetFreight exReq = ''f1''"
    by (simp_all add: exReq_def)
  have same: "(exServer (exBare ''A'') [] [] [])
      \<lparr>findStageSubscribersFn := findStageSubscribersFn (exServer (exBare ''A'') [] [] [])\<rparr>
      = exServer (exBare ''A'') [] [] []"
    by simp
  from PromoteSubscribers_gate_before_resolution [OF h1 h2 h3 h4 h5, of exPkgs]
  have "PromoteSubscribers ((exServer (exBare ''A'') [] [] [])
      \<lparr>findStageSubscribersFn := findStageSubscribersFn (exServer (exBare ''A'') [] [] [])\<rparr>)
      exPkgs exReq ([], 0) =
       ((None, Some (ConnectError CodeNotFound
           (Plain (''no qualified Freight '' @ quote exPkgs ''f1'' @
                   '' found in namespace '' @ quote exPkgs ''proj'')))),
        ([CallValidateProject ''proj'', CallGetStage (''proj'', ''A''),
          CallGetQualifiedFreight (''proj'', ''f1'') [''A'']], 0))"
    unfolding fields by blast
  then have "PromoteSubscribers (exServer (exBare ''A'') [] [] []) exPkgs exReq ([], 0) =
       ((None, Some (ConnectError CodeNotFound
           (Plain (''no qualified Freight '' @ quote exPkgs ''f1'' @
                   '' found in namespace '' @ quote exPkgs ''proj'')))),
        ([CallValidateProject ''proj'', CallGetStage (''proj'', ''A''),
          CallGetQualifiedFreight (''proj'', ''f1'') [''A'']], 0))"
    by (simp only: same)
  with h1 h2 h3 h4 h5 h6 show ?thesis by (intro conjI)
qed

text \<open>
  C5. When the stage exists, the freight is qualified and the subscribers resolve to
  the empty list, \<^verbatim>\<open>PromoteSubscribers\<close> fails NotFound with a message containing
  "has no subscribers", and no promotion write is attempted.
\<close>

theorem PromoteSubscribers_no_subscribers:
  fixes srv :: "('w, 'f, 'p) server" and pk :: "('w, 'p, 'q) pkgs"
  assumes ne: "GetProject req \<noteq> []" "GetStage req \<noteq> []"
      and vp: "validateProjectFn srv w0 (GetProject req) = (None, w1)"
      and gs: "getStageFn srv w1 (GetProject req, GetStage req) = ((Some stg, None), w2)"
      and gq: "getQualifiedFreightFn srv w2 (GetProject req, GetFreight req) [GetStage req]
                = ((Some f, None), w3)"
      and fs: "findStageSubscribersFn srv w3 stg = (([], None), w4)"
  shows "(\<exists>msg. PromoteSubscribers srv pk req ([], w0) =
            ((None, Some (ConnectError CodeNotFound (Plain msg))),
             ([CallValidateProject (GetProject req),
               CallGetStage (GetProject req, GetStage req),
               CallGetQualifiedFreight (GetProject req, GetFreight req) [GetStage req],
               CallFindStageSubscribers stg], w4))
          \<and> sublist ''has no subscribers'' msg)
       \<and> writesOf (fst (snd (PromoteSubscribers srv pk req ([], w0)))) = []"
proof -
  have "PromoteSubscribers_resolve srv pk req ([], w0) =
           ((if ([]::stage list) = [] then
               Inl (None, Some (ConnectError CodeNotFound
                 (Plain (''Stage '' @ quote pk (GetStage req) @ '' has no subscribers''))))
             else Inr []),
            ([] @ [CallValidateProject (GetProject req),
                   CallGetStage (GetProject req, GetStage req),
                   CallGetQualifiedFreight (GetProject req, GetFreight req) [GetStage req],
                   CallFindStageSubscribers stg], w4))"
    by (rule resolve_subscribers [OF ne vp gs gq fs])
  then have run: "PromoteSubscribers srv pk req ([], w0) =
            ((None, Some (ConnectError CodeNotFound
                (Plain (''Stage '' @ quote pk (GetStage req) @ '' has no subscribers'')))),
             ([CallValidateProject (GetProject req),
               CallGetStage (GetProject req, GetStage req),
               CallGetQualifiedFreight (GetProject req, GetFreight req) [GetStage req],
               CallFindStageSubscribers stg], w4))"
    by (simp add: PromoteSubscribers_def)
  have "sublist ''has no subscribers''
          ((''Stage '' @ quote pk (GetStage req) @ '' '') @ ''has no subscribers'')"
    by (rule sublist_last)
  then have sub: "sublist ''has no subscribers''
          (''Stage '' @ quote pk (GetStage req) @ '' has no subscribers'')"
    by simp
  have w: "writesOf (fst (snd (PromoteSubscribers srv pk req ([], w0)))) = []"
    by (simp add: run)
  from run sub w show ?thesis by blast
qed

theorem PromoteSubscribers_no_subscribers_witness:
  "GetProject exReq \<noteq> [] \<and> GetStage exReq \<noteq> []
   \<and> validateProjectFn (exServer (exBare ''A'') [] [''A''] []) 0 (GetProject exReq) = (None, 0)
   \<and> getStageFn (exServer (exBare ''A'') [] [''A''] []) 0 (GetProject exReq, GetStage exReq)
        = ((Some (exBare ''A''), None), 0)
   \<and> getQualifiedFreightFn (exServer (exBare ''A'') [] [''A''] []) 0
        (GetProject exReq, GetFreight exReq) [GetStage exReq] = ((Some (), None), 0)
   \<and> findStageSubscribersFn (exServer (exBare ''A'') [] [''A''] []) 0 (exBare ''A'') = (([], None), 0)
   \<and> (\<exists>msg. PromoteSubscribers (exServer (exBare ''A'') [] [''A''] []) exPkgs exReq ([], 0) =
            ((None, Some (ConnectError CodeNotFound (Plain msg))),
             ([CallValidateProject ''proj'', CallGetStage (''proj'', ''A''),
               CallGetQualifiedFreight (''proj'', ''f1'') [''A''],
               CallFindStageSubscribers (exBare ''A'')], 0))
          \<and> sublist ''has no subscribers'' msg)
   \<and> writesOf (fst (snd (PromoteSubscribers (exServer (exBare ''A'') [] [''A''] []) exPkgs exReq ([], 0)))) = []"
proof -
  have h1: "GetProject exReq \<noteq> []" and h2: "GetStage exReq \<noteq> []"
    by (simp_all add: exReq_def)
  have h3: "validateProjectFn (exServer (exBare ''A'') [] [''A''] []) 0 (GetProject exReq) = (None, 0)"
    by (simp add: exServer_def)
  have h4: "getStageFn (exServer (exBare ''A'') [] [''A''] []) 0 (GetProject exReq, GetStage exReq)
        = ((Some (exBare ''A''), None), 0)"
    by (simp add: ex_defs)
  have h5: "getQualifiedFreightFn (exServer (exBare ''A'') [] [''A''] []) 0
        (GetProject exReq, GetFreight exReq) [GetStage exReq] = ((Some (), None), 0)"
    by (simp add: ex_defs)
  have h6: "findStageSubscribersFn (exServer (exBare ''A'') [] [''A''] []) 0 (exBare ''A'') = (([], None), 0)"
    by (simp add: exServer_def)
  have fields: "GetProject exReq = ''proj''" "GetStage exReq = ''A''" "GetFreight exReq = ''f1''"
    by (simp_all add: exReq_def)
  from PromoteSubscribers_no_subscribers [OF h1 h2 h3 h4 h5 h6, of exPkgs] h1 h2 h3 h4 h5 h6
  show ?thesis unfolding fields by (intro conjI) simp_all
qed

lemma PromoteStage_invalid:
  "pst_Project req = [] \<or> pst_Name req = [] \<Longrightarrow>
   \<exists>m. PromoteStage srv pk req s0 = ((None, Some (ConnectError CodeInvalidArgument m)), s0)"
  by (auto simp: PromoteStage_def validateProjectAndStageNonEmpty_def)

lemma PromoteStage_to_gate:
  assumes "pst_Project req \<noteq> []" and "pst_Name req \<noteq> []"
      and "validateProjectFn srv w0 (pst_Project req) = (None, w1)"
      and "getStageFn srv w1 (pst_Project req, pst_Name req) = ((Some stg, None), w2)"
  shows "\<exists>rest. fst (snd (PromoteStage srv pk req (tr, w0))) =
           tr @ [CallValidateProject (pst_Project req),
                 CallGetStage (pst_Project req, pst_Name req),
                 CallGetQualifiedFreight (pst_Project req, pst_Freight req)
                   (pst_Name req # map sub_Name (upstreamsOf stg))] @ rest"
proof -
  obtain fr e3 w3 where gq:
    "getQualifiedFreightFn srv w2 (pst_Project req, pst_Freight req)
       (pst_Name req # map sub_Name (upstreamsOf stg)) = ((fr, e3), w3)"
    by (cases "getQualifiedFreightFn srv w2 (pst_Project req, pst_Freight req)
       (pst_Name req # map sub_Name (upstreamsOf stg))") auto
  obtain built w4 where np: "NewPromotion pk w3 stg (pst_Freight req) = (built, w4)"
    by (cases "NewPromotion pk w3 stg (pst_Freight req)")
  obtain e5 written w5 where cr: "createPromotionFn srv w4 built = ((e5, written), w5)"
    by (cases "createPromotionFn srv w4 built") auto
  show ?thesis
    using assms gq np cr
    by (cases e3; cases fr; cases e5)
       (simp_all add: PromoteStage_def validateProjectAndStageNonEmpty_def invoke_pair)
qed

lemma PromoteStage_first:
  assumes "pst_Project req \<noteq> []" and "pst_Name req \<noteq> []"
  shows "take 1 (fst (snd (PromoteStage srv pk req ([], w0)))) =
           [CallValidateProject (pst_Project req)]"
proof -
  obtain e1 w1 where vp: "validateProjectFn srv w0 (pst_Project req) = (e1, w1)"
    by (cases "validateProjectFn srv w0 (pst_Project req)")
  show ?thesis
  proof (cases e1)
    case (Some e)
    with assms vp show ?thesis
      by (simp add: PromoteStage_def validateProjectAndStageNonEmpty_def invoke_pair)
  next
    case None
    obtain st e2 w2 where gs: "getStageFn srv w1 (pst_Project req, pst_Name req) = ((st, e2), w2)"
      by (cases "getStageFn srv w1 (pst_Project req, pst_Name req)") auto
    show ?thesis
    proof (cases "e2 = None \<and> st \<noteq> None")
      case False
      with assms vp None gs show ?thesis
        by (auto simp: PromoteStage_def validateProjectAndStageNonEmpty_def invoke_pair
                 split: option.splits)
    next
      case True
      then obtain stg where st: "st = Some stg" and e2: "e2 = None" by auto
      from PromoteStage_to_gate [OF assms, of srv w0 w1 stg w2 pk "[]"] vp None gs st e2
      show ?thesis by auto
    qed
  qed
qed

text \<open>
  C2, as stated, fails for an empty freight name: with a non-empty project and stage,
  \<^verbatim>\<open>PromoteSubscribers\<close> passes the validation (which receives the project and the stage
  only), invokes every collaborator and can succeed.
\<close>

theorem empty_freight_counterexample:
  "GetFreight exNoFreight = []
   \<and> PromoteSubscribers (exServer (exBare ''A'') exSubs [''A''] []) exPkgs exNoFreight ([], 0) =
       ((Some \<lparr>Promotions = [(''B'', '''', 0), (''C'', '''', 2)]\<rparr>, None),
        ([CallValidateProject ''proj'', CallGetStage (''proj'', ''A''),
          CallGetQualifiedFreight (''proj'', '''') [''A''],
          CallFindStageSubscribers (exBare ''A''),
          CallCreatePromotion (''B'', '''', 0), CallCreatePromotion (''C'', '''', 2)], 4))"
  by (simp add: run_defs ex_defs)

text \<open>
  C2, amended. For every input to \<^verbatim>\<open>PromoteStage\<close> or \<^verbatim>\<open>PromoteSubscribers\<close> in which
  the project is empty or the stage name is empty, the operation fails with
  InvalidArgument and no collaborator is invoked (the state, trace included, is
  returned as it was). The freight name is not validated: when project and stage
  name are non-empty, either operation goes on to the project validator.
\<close>

theorem empty_project_or_stage_invalid:
  fixes srv :: "('w, 'f, 'p) server" and pk :: "('w, 'p, 'q) pkgs"
  shows "(GetProject req = [] \<or> GetStage req = [] \<longrightarrow>
            (\<exists>m. PromoteSubscribers srv pk req s0 =
                   ((None, Some (ConnectError CodeInvalidArgument m)), s0)))
       \<and> (pst_Project sreq = [] \<or> pst_Name sreq = [] \<longrightarrow>
            (\<exists>m. PromoteStage srv pk sreq s0 =
                   ((None, Some (ConnectError CodeInvalidArgument m)), s0)))
       \<and> (GetProject req \<noteq> [] \<and> GetStage req \<noteq> [] \<longrightarrow>
            take 1 (fst (snd (PromoteSubscribers srv pk req ([], w0))))
              = [CallValidateProject (GetProject req)])
       \<and> (pst_Project sreq \<noteq> [] \<and> pst_Name sreq \<noteq> [] \<longrightarrow>
            take 1 (fst (snd (PromoteStage srv pk sreq ([], w0))))
              = [CallValidateProject (pst_Project sreq)])"
proof (intro conjI impI)
  assume "GetProject req = [] \<or> GetStage req = []"
  from resolve_invalid [OF this, of srv pk s0]
  show "\<exists>m. PromoteSubscribers srv pk req s0 =
                   ((None, Some (ConnectError CodeInvalidArgument m)), s0)"
    by (auto simp: PromoteSubscribers_def)
next
  assume "pst_Project sreq = [] \<or> pst_Name sreq = []"
  then show "\<exists>m. PromoteStage srv pk sreq s0 =
                   ((None, Some (ConnectError CodeInvalidArgument m)), s0)"
    by (rule PromoteStage_invalid)
next
  assume ne: "GetProject req \<noteq> [] \<and> GetStage req \<noteq> []"
  from PromoteSubscribers_trace [of srv pk req "[]" w0] ne obtain n stg ps where
    tr: "fst (snd (PromoteSubscribers srv pk req ([], w0))) =
       [] @ take n [CallValidateProject (GetProject req),
                  CallGetStage (GetProject req, GetStage req),
                  CallGetQualifiedFreight (GetProject req, GetFreight req) [GetStage req],
                  CallFindStageSubscribers stg]
        @ map CallCreatePromotion ps"
    and pos: "0 < n"
    by blast
  from pos show "take 1 (fst (snd (PromoteSubscribers srv pk req ([], w0))))
              = [CallValidateProject (GetProject req)]"
    unfolding tr by (cases n) simp_all
next
  assume ne: "pst_Project sreq \<noteq> [] \<and> pst_Name sreq \<noteq> []"
  then have "pst_Project sreq \<noteq> []" and "pst_Name sreq \<noteq> []" by simp_all
  then show "take 1 (fst (snd (PromoteStage srv pk sreq ([], w0))))
              = [CallValidateProject (pst_Project sreq)]"
    by (rule PromoteStage_first)
qed

theorem empty_project_or_stage_invalid_witness:
  "GetProject exNoProject = []
   \<and> (\<exists>m. PromoteSubscribers (exServer (exBare ''A'') exSubs [''A''] []) exPkgs exNoProject ([], 0) =
          ((None, Some (ConnectError CodeInvalidArgument m)), ([], 0)))
   \<and> pst_Name exNoName = []
   \<and> (\<exists>m. PromoteStage (exServer (exBare ''A'') exSubs [''A''] []) exPkgs exNoName ([], 0) =
          ((None, Some (ConnectError CodeInvalidArgument m)), ([], 0)))
   \<and> GetProject exNoFreight \<noteq> [] \<and> GetStage exNoFreight \<noteq> [] \<and> GetFreight exNoFreight = []
   \<and> take 1 (fst (snd (PromoteSubscribers (exServer (exBare ''A'') exSubs [''A''] []) exPkgs
                          exNoFreight ([], 0))))
       = [CallValidateProject ''proj'']
   \<and> pst_Project exStageNoFreight \<noteq> [] \<and> pst_Name exStageNoFreight \<noteq> []
   \<and> pst_Freight exStageNoFreight = []
   \<and> take 1 (fst (snd (PromoteStage (exServer (exBare ''A'') exSubs [''A''] []) exPkgs
                          exStageNoFreight ([], 0))))
       = [CallValidateProject ''proj'']"
proof -
  let ?srv = "exServer (exBare ''A'') exSubs [''A''] []"
  have h1: "GetProject exNoProject = []" by (simp add: exNoProject_def)
  have h2: "pst_Name exNoName = []" by (simp add: exNoName_def)
  have h3: "GetProject exNoFreight \<noteq> [] \<and> GetStage exNoFreight \<noteq> []"
    by (simp add: exNoFreight_def)
  have h3': "GetFreight exNoFreight = []" by (simp add: exNoFreight_def)
  have h4: "pst_Project exStageNoFreight \<noteq> [] \<and> pst_Name exStageNoFreight \<noteq> []"
    by (simp add: exStageNoFreight_def)
  have h4': "pst_Freight exStageNoFreight = []" by (simp add: exStageNoFreight_def)
  have p: "GetProject exNoFreight = ''proj''" by (simp add: exNoFreight_def)
  have q: "pst_Project exStageNoFreight = ''proj''" by (simp add: exStageNoFreight_def)
  note t1 = empty_project_or_stage_invalid [of exNoProject ?srv exPkgs "([], 0)" exNoName 0]
  note t2 = empty_project_or_stage_invalid [of exNoFreight ?srv exPkgs "([], 0)" exStageNoFreight 0]
  from h1 have d1: "GetProject exNoProject = [] \<or> GetStage exNoProject = []" by (rule disjI1)
  from h2 have d2: "pst_Project exNoName = [] \<or> pst_Name exNoName = []" by (rule disjI2)
  note a = t1 [THEN conjunct1, THEN mp, OF d1]
  note b = t1 [THEN conjunct2, THEN conjunct1, THEN mp, OF d2]
  note c = t2 [THEN conjunct2, THEN conjunct2, THEN conjunct1, THEN mp, OF h3, unfolded p]
  note d = t2 [THEN conjunct2, THEN conjunct2, THEN conjunct2, THEN mp, OF h4, unfolded q]
  from h1 a h2 b h3 h3' c h4 h4' d show ?thesis by (intro conjI) simp_all
qed

lemma PromoteStage_success:
  assumes "pst_Project req \<noteq> []" and "pst_Name req \<noteq> []"
      and "validateProjectFn srv w0 (pst_Project req) = (None, w1)"
      and "getStageFn srv w1 (pst_Project req, pst_Name req) = ((Some stg, None), w2)"
      and "getQualifiedFreightFn srv w2 (pst_Project req, pst_Freight req)
             (pst_Name req # map sub_Name (upstreamsOf stg)) = ((Some f, None), w3)"
      and "NewPromotion pk w3 stg (pst_Freight req) = (built, w4)"
      and "createPromotionFn srv w4 built = ((None, written), w5)"
  shows "PromoteStage srv pk req (tr, w0) =
           ((Some \<lparr>Promotion = ToPromotionProto pk written\<rparr>, None),
            (tr @ [CallValidateProject (pst_Project req),
                   CallGetStage (pst_Project req, pst_Name req),
                   CallGetQualifiedFreight (pst_Project req, pst_Freight req)
                     (pst_Name req # map sub_Name (upstreamsOf stg)),
                   CallCreatePromotion built], w5))"
  using assms
  by (simp add: PromoteStage_def validateProjectAndStageNonEmpty_def invoke_pair)

text \<open>
  C6. In \<^verbatim>\<open>PromoteStage\<close>, once the stage is fetched, the gate is called with the
  stage's own name followed by the names of its upstream subscriptions. So for a stage
  with the upstream subscriptions \<open>U1\<close> and \<open>U2\<close> and a gate that qualifies the freight for
  \<open>U2\<close> only, \<^verbatim>\<open>PromoteStage\<close> succeeds (the write succeeding) and returns the created
  Promotion.
\<close>

theorem PromoteStage_candidates_include_upstreams:
  fixes srv :: "('w, 'f, 'p) server" and pk :: "('w, 'p, 'q) pkgs"
  assumes ne: "pst_Project req \<noteq> []" "pst_Name req \<noteq> []"
      and vp: "validateProjectFn srv w0 (pst_Project req) = (None, w1)"
      and gs: "getStageFn srv w1 (pst_Project req, pst_Name req) = ((Some stg, None), w2)"
  shows "take 3 (fst (snd (PromoteStage srv pk req ([], w0)))) =
           [CallValidateProject (pst_Project req),
            CallGetStage (pst_Project req, pst_Name req),
            CallGetQualifiedFreight (pst_Project req, pst_Freight req)
              (pst_Name req # map sub_Name (upstreamsOf stg))]
       \<and> set (pst_Name req # map sub_Name (upstreamsOf stg)) =
           {pst_Name req} \<union> sub_Name ` set (upstreamsOf stg)
       \<and> (\<forall>U1 U2 f w3 built w4 written w5.
             map sub_Name (upstreamsOf stg) = [U1, U2]
             \<and> (\<forall>cands. fst (getQualifiedFreightFn srv w2 (pst_Project req, pst_Freight req) cands)
                         = (if U2 \<in> set cands then Some f else None, None))
             \<and> snd (getQualifiedFreightFn srv w2 (pst_Project req, pst_Freight req)
                      [pst_Name req, U1, U2]) = w3
             \<and> NewPromotion pk w3 stg (pst_Freight req) = (built, w4)
             \<and> createPromotionFn srv w4 built = ((None, written), w5)
           \<longrightarrow> PromoteStage srv pk req ([], w0) =
                 ((Some \<lparr>Promotion = ToPromotionProto pk written\<rparr>, None),
                  ([CallValidateProject (pst_Project req),
                    CallGetStage (pst_Project req, pst_Name req),
                    CallGetQualifiedFreight (pst_Project req, pst_Freight req)
                      [pst_Name req, U1, U2],
                    CallCreatePromotion built], w5)))"
proof (intro conjI allI impI)
  from PromoteStage_to_gate [OF ne vp gs, of pk "[]"]
  show "take 3 (fst (snd (PromoteStage srv pk req ([], w0)))) =
           [CallValidateProject (pst_Project req),
            CallGetStage (pst_Project req, pst_Name req),
            CallGetQualifiedFreight (pst_Project req, pst_Freight req)
              (pst_Name req # map sub_Name (upstreamsOf stg))]"
    by auto
next
  show "set (pst_Name req # map sub_Name (upstreamsOf stg)) =
           {pst_Name req} \<union> sub_Name ` set (upstreamsOf stg)"
    by simp
next
  fix U1 U2 f w3 built w4 written w5
  assume h: "map sub_Name (upstreamsOf stg) = [U1, U2]
             \<and> (\<forall>cands. fst (getQualifiedFreightFn srv w2 (pst_Project req, pst_Freight req) cands)
                         = (if U2 \<in> set cands then Some f else None, None))
             \<and> snd (getQualifiedFreightFn srv w2 (pst_Project req, pst_Freight req)
                      [pst_Name req, U1, U2]) = w3
             \<and> NewPromotion pk w3 stg (pst_Freight req) = (built, w4)
             \<and> createPromotionFn srv w4 built = ((None, written), w5)"
  then have ups: "map sub_Name (upstreamsOf stg) = [U1, U2]" by simp
  from h have "fst (getQualifiedFreightFn srv w2 (pst_Project req, pst_Freight req)
                 [pst_Name req, U1, U2]) = (Some f, None)"
    by simp
  with h have gq: "getQualifiedFreightFn srv w2 (pst_Project req, pst_Freight req)
             (pst_Name req # map sub_Name (upstreamsOf stg)) = ((Some f, None), w3)"
    by (simp add: ups prod_eq_iff)
  from h have np: "NewPromotion pk w3 stg (pst_Freight req) = (built, w4)"
    and cr: "createPromotionFn srv w4 built = ((None, written), w5)"
    by simp_all
  from PromoteStage_success [OF ne vp gs gq np cr, of "[]"]
  show "PromoteStage srv pk req ([], w0) =
                 ((Some \<lparr>Promotion = ToPromotionProto pk written\<rparr>, None),
                  ([CallValidateProject (pst_Project req),
                    CallGetStage (pst_Project req, pst_Name req),
                    CallGetQualifiedFreight (pst_Project req, pst_Freight req)
                      [pst_Name req, U1, U2],
                    CallCreatePromotion built], w5))"
    by (simp add: ups)
qed

theorem PromoteStage_candidates_include_upstreams_witness:
  "pst_Project exStageReq \<noteq> [] \<and> pst_Name exStageReq \<noteq> []
   \<and> validateProjectFn (exServer (exStage ''S'' [''U1'', ''U2'']) [] [''U2''] []) 0
        (pst_Project exStageReq) = (None, 0)
   \<and> getStageFn (exServer (exStage ''S'' [''U1'', ''U2'']) [] [''U2''] []) 0
        (pst_Project exStageReq, pst_Name exStageReq) = ((Some (exStage ''S'' [''U1'', ''U2'']), None), 0)
   \<and> map sub_Name (upstreamsOf (exStage ''S'' [''U1'', ''U2''])) = [''U1'', ''U2'']
   \<and> getQualifiedFreightFn (exServer (exStage ''S'' [''U1'', ''U2'']) [] [''U2''] []) 0
        (''proj'', ''f1'') [''S'', ''U1''] = ((None, None), 0)
   \<and> getQualifiedFreightFn (exServer (exStage ''S'' [''U1'', ''U2'']) [] [''U2''] []) 0
        (''proj'', ''f1'') [''U2''] = ((Some (), None), 0)
   \<and> PromoteStage (exServer (exStage ''S'' [''U1'', ''U2'']) [] [''U2''] []) exPkgs exStageReq ([], 0) =
       ((Some \<lparr>Promotion = (''S'', ''f1'', 0)\<rparr>, None),
        ([CallValidateProject ''proj'', CallGetStage (''proj'', ''S''),
          CallGetQualifiedFreight (''proj'', ''f1'') [''S'', ''U1'', ''U2''],
          CallCreatePromotion (''S'', ''f1'', 0)], 2))"
proof -
  let ?srv = "exServer (exStage ''S'' [''U1'', ''U2'']) [] [''U2''] []"
  have h1: "pst_Project exStageReq \<noteq> []" and h2: "pst_Name exStageReq \<noteq> []"
    by (simp_all add: exStageReq_def)
  have h3: "validateProjectFn ?srv 0 (pst_Project exStageReq) = (None, 0)"
    by (simp add: exServer_def)
  have h4: "getStageFn ?srv 0 (pst_Project exStageReq, pst_Name exStageReq)
              = ((Some (exStage ''S'' [''U1'', ''U2'']), None), 0)"
    by (simp add: ex_defs)
  have h5: "map sub_Name (upstreamsOf (exStage ''S'' [''U1'', ''U2''])) = [''U1'', ''U2'']"
    by (simp add: upstreamsOf_def exStage_def)
  have h6: "\<forall>cands. fst (getQualifiedFreightFn ?srv 0 (pst_Project exStageReq, pst_Freight exStageReq) cands)
                 = (if ''U2'' \<in> set cands then Some () else None, None)"
    by (simp add: exServer_def)
  have h7: "snd (getQualifiedFreightFn ?srv 0 (pst_Project exStageReq, pst_Freight exStageReq)
                  [pst_Name exStageReq, ''U1'', ''U2'']) = 0"
    by (simp add: exServer_def)
  have h8: "NewPromotion exPkgs 0 (exStage ''S'' [''U1'', ''U2'']) (pst_Freight exStageReq)
              = ((''S'', ''f1'', 0), 1)"
    by (simp add: ex_defs)
  have h9: "createPromotionFn ?srv 1 (''S'', ''f1'', 0) = ((None, (''S'', ''f1'', 0)), 2)"
    by (simp add: exServer_def eval_nat_numeral)
  have fields: "pst_Project exStageReq = ''proj''" "pst_Name exStageReq = ''S''"
      "pst_Freight exStageReq = ''f1''"
    by (simp_all add: exStageReq_def)
  have n1: "getQualifiedFreightFn ?srv 0 (''proj'', ''f1'') [''S'', ''U1''] = ((None, None), 0)"
    by (simp add: exServer_def)
  have n2: "getQualifiedFreightFn ?srv 0 (''proj'', ''f1'') [''U2''] = ((Some (), None), 0)"
    by (simp add: exServer_def)
  note t = PromoteStage_candidates_include_upstreams
             [OF h1 h2 h3 h4, of exPkgs, THEN conjunct2, THEN conjunct2, rule_format]
  have "PromoteStage ?srv exPkgs exStageReq ([], 0) =
       ((Some \<lparr>Promotion = ToPromotionProto exPkgs (''S'', ''f1'', 0)\<rparr>, None),
        ([CallValidateProject (pst_Project exStageReq),
          CallGetStage (pst_Project exStageReq, pst_Name exStageReq),
          CallGetQualifiedFreight (pst_Project exStageReq, pst_Freight exStageReq)
            [pst_Name exStageReq, ''U1'', ''U2''],
          CallCreatePromotion (''S'', ''f1'', 0)], 2))"
    by (rule t [where f = "()" and ?w3.0 = 0 and ?w4.0 = 1])
       (intro conjI h5 h6 h7 h8 h9)
  then have run: "PromoteStage ?srv exPkgs exStageReq ([], 0) =
       ((Some \<lparr>Promotion = (''S'', ''f1'', 0)\<rparr>, None),
        ([CallValidateProject ''proj'', CallGetStage (''proj'', ''S''),
          CallGetQualifiedFreight (''proj'', ''f1'') [''S'', ''U1'', ''U2''],
          CallCreatePromotion (''S'', ''f1'', 0)], 2))"
    by (simp add: fields exPkgs_def)
  from h1 h2 h3 h4 h5 n1 n2 run show ?thesis by (intro conjI)
qed

end
